theory Spec2Isabelle
  imports Main "HOL-Library.Word"
begin

unbundle bit_operations_syntax

section \<open>JavaScript values\<close>

text \<open>
  A JavaScript string is a \<open>string\<close>: a list of 8-bit characters, each standing for the
  UTF-16 code unit of the same number, so \<open>length\<close> is the \<open>.length\<close> of the source for
  every string whose code units are below 256. A \<open>Date\<close> is its number of milliseconds
  since the epoch. A \<open>Buffer\<close> is a list of bytes. A thrown \<open>Error\<close> is its message: the
  source tells errors apart by their messages only; \<open>NotAnError\<close> is a thrown value that
  is no \<open>Error\<close> object.
\<close>

type_synonym time = nat
type_synonym buffer = "8 word list"

datatype thrown = Error (message: string) | NotAnError

text \<open>\<open>s.split(c)\<close> for a one-character separator: never empty, \<open>''''.split(c) = ['''']\<close>.\<close>

fun split_on :: "char \<Rightarrow> string \<Rightarrow> string list" where
  "split_on c [] = [[]]"
| "split_on c (x # xs) =
     (if x = c then [] # split_on c xs
      else (case split_on c xs of [] \<Rightarrow> [[x]] | w # ws \<Rightarrow> (x # w) # ws))"

text \<open>\<open>xs[i]\<close>: \<open>undefined\<close> (here \<open>None\<close>) past the end.\<close>

definition nth_opt :: "'a list \<Rightarrow> nat \<Rightarrow> 'a option" where
  "nth_opt xs i = (if i < length xs then Some (xs ! i) else None)"

text \<open>
  \<open>parseInt(x, 10)\<close>: leading white space is skipped, one sign is read, then the longest
  run of decimal digits; \<open>NaN\<close> (here \<open>None\<close>) when there is no digit. \<open>undefined\<close> is
  converted to the string \<open>undefined\<close>, which has none.
\<close>

definition is_js_space :: "char \<Rightarrow> bool" where
  "is_js_space c = (of_char c \<in> {9, 10, 11, 12, 13, 32, 160 :: nat})"

definition is_digit :: "char \<Rightarrow> bool" where
  "is_digit c = (48 \<le> (of_char c :: nat) \<and> (of_char c :: nat) \<le> 57)"

definition digit_val :: "char \<Rightarrow> nat" where
  "digit_val c = of_char c - 48"

definition parseInt :: "string option \<Rightarrow> int option" where
  "parseInt x =
     (case x of
        None \<Rightarrow> None
      | Some s \<Rightarrow>
          (let t = dropWhile is_js_space s;
               neg = (t \<noteq> [] \<and> hd t = CHR ''-'');
               u = (if t \<noteq> [] \<and> (hd t = CHR ''-'' \<or> hd t = CHR ''+'') then tl t else t);
               ds = takeWhile is_digit u
           in if ds = [] then None
              else Some ((if neg then - 1 else 1) *
                         int (foldl (\<lambda>a c. 10 * a + digit_val c) 0 ds))))"

text \<open>The decimal text of a number, as a template string inserts it.\<close>

fun show_nat :: "nat \<Rightarrow> string" where
  "show_nat n =
     (if n < 10 then [char_of (48 + n)] else show_nat (n div 10) @ [char_of (48 + n mod 10)])"

declare show_nat.simps [simp del]

definition show_int :: "int \<Rightarrow> string" where
  "show_int i = (if i < 0 then CHR ''-'' # show_nat (nat (- i)) else show_nat (nat i))"

text \<open>\<open>s.includes(t)\<close> and \<open>s.startsWith(t)\<close>.\<close>

definition startsWith :: "string \<Rightarrow> string \<Rightarrow> bool" where
  "startsWith s t = (take (length t) s = t)"

fun includes_str :: "string \<Rightarrow> string \<Rightarrow> bool" where
  "includes_str [] t = (t = [])"
| "includes_str (x # xs) t = (startsWith (x # xs) t \<or> includes_str xs t)"

text \<open>\<open>buf.toString('hex')\<close>: two lower-case digits for each byte.\<close>

definition hex_digit :: "nat \<Rightarrow> char" where
  "hex_digit n = ''0123456789abcdef'' ! n"

definition hex_byte :: "8 word \<Rightarrow> string" where
  "hex_byte b = [hex_digit (unat b div 16), hex_digit (unat b mod 16)]"

definition toString_hex :: "buffer \<Rightarrow> string" where
  "toString_hex bs = concat (map hex_byte bs)"

text \<open>The UTF-8 bytes of a string, as Node takes them from a string argument.\<close>

definition utf8_char :: "char \<Rightarrow> buffer" where
  "utf8_char c =
     (let n = of_char c :: nat
      in if n < 128 then [of_nat n] else [of_nat (192 + n div 64), of_nat (128 + n mod 64)])"

definition utf8 :: "string \<Rightarrow> buffer" where
  "utf8 s = concat (map utf8_char s)"

section \<open>The libraries the code calls\<close>

text \<open>
  The hash functions and the compact serialisation of a signed token are parameters of
  the model: every theorem below holds for each choice of them. \<open>jws_decode s\<close> is what
  the string \<open>s\<close> decodes to (\<open>None\<close> when it is not a token at all) and \<open>jws_key\<close> of the
  result is the secret under which its signature verifies. \<open>localTZA t isUTC\<close> is the
  offset in milliseconds of the process's local time from UTC, as the language standard
  has it: at the UTC instant \<open>t\<close> when \<open>isUTC\<close>, for the local time value \<open>t\<close> otherwise.
\<close>

record jwt_payload =
  p_userId :: "string option"
  p_email :: "string option"
  p_role :: "string option"
  p_type :: "string option"
  p_iat :: "nat option"
  p_nbf :: "nat option"
  p_exp :: "nat option"
  p_iss :: "string option"
  p_aud :: "string option"

record jws =
  jws_key :: string
  jws_payload :: jwt_payload

record env =
  JWT_SECRET :: string
  JWT_REFRESH_SECRET :: string
  sha256 :: "buffer \<Rightarrow> buffer"
  sha512 :: "buffer \<Rightarrow> buffer"
  jws_encode :: "jws \<Rightarrow> string"
  jws_decode :: "string \<Rightarrow> jws option"
  NODE_ENV :: "string option"
  localTZA :: "int \<Rightarrow> bool \<Rightarrow> int"

subsection \<open>Dates in local time\<close>

definition LocalTime :: "env \<Rightarrow> int \<Rightarrow> int" where
  "LocalTime E t = t + localTZA E t True"

definition UTC_time :: "env \<Rightarrow> int \<Rightarrow> int" where
  "UTC_time E t = t - localTZA E t False"

text \<open>
  \<open>d.setDate(d.getDate() + n)\<close>: the day number of the local time value grows by \<open>n\<close> and
  the time within the day stays, so the local time value moves by \<open>n\<close> days of 86400000
  milliseconds; the result is that local time taken back to UTC.
\<close>

definition setDate_getDate_plus :: "env \<Rightarrow> time \<Rightarrow> int \<Rightarrow> time" where
  "setDate_getDate_plus E t n = nat (UTC_time E (LocalTime E (int t) + n * 86400000))"

subsection \<open>\<open>crypto.pbkdf2\<close>\<close>

text \<open>
  HMAC (RFC 2104) over a hash with 128-byte blocks, as SHA-512 has: a key longer than a
  block is hashed, a shorter one is filled up with zero bytes.
\<close>

definition hmac_key :: "(buffer \<Rightarrow> buffer) \<Rightarrow> buffer \<Rightarrow> buffer" where
  "hmac_key H K =
     (let K1 = (if 128 < length K then H K else K) in K1 @ replicate (128 - length K1) 0)"

definition hmac :: "(buffer \<Rightarrow> buffer) \<Rightarrow> buffer \<Rightarrow> buffer \<Rightarrow> buffer" where
  "hmac H K m =
     H (map (\<lambda>b. b XOR 0x5C) (hmac_key H K) @ H (map (\<lambda>b. b XOR 0x36) (hmac_key H K) @ m))"

text \<open>PBKDF2 (RFC 8018, 5.2) with that HMAC and 64-byte blocks of output.\<close>

definition int32be :: "nat \<Rightarrow> buffer" where
  "int32be i = [of_nat (i div 16777216), of_nat (i div 65536), of_nat (i div 256), of_nat i]"

fun pbkdf2_rounds :: "(buffer \<Rightarrow> buffer) \<Rightarrow> buffer \<Rightarrow> nat \<Rightarrow> buffer \<Rightarrow> buffer \<Rightarrow> buffer" where
  "pbkdf2_rounds H P 0 u t = t"
| "pbkdf2_rounds H P (Suc n) u t =
     (let u' = hmac H P u in pbkdf2_rounds H P n u' (map2 (XOR) t u'))"

definition pbkdf2_F :: "(buffer \<Rightarrow> buffer) \<Rightarrow> buffer \<Rightarrow> buffer \<Rightarrow> nat \<Rightarrow> nat \<Rightarrow> buffer" where
  "pbkdf2_F H P S c i = (let u1 = hmac H P (S @ int32be i) in pbkdf2_rounds H P (c - 1) u1 u1)"

definition pbkdf2_hmac :: "(buffer \<Rightarrow> buffer) \<Rightarrow> buffer \<Rightarrow> buffer \<Rightarrow> nat \<Rightarrow> nat \<Rightarrow> buffer" where
  "pbkdf2_hmac H P S c dkLen =
     take dkLen (concat (map (pbkdf2_F H P S c) [1 ..< Suc ((dkLen + 63) div 64)]))"

text \<open>
  \<open>crypto.pbkdf2(password, salt, iterations, keylen, 'sha512', callback)\<close>: Node throws
  before any work unless \<open>iterations\<close> is an integer from 1 to \<open>2^31 - 1\<close>; \<open>NaN\<close> is none.
\<close>

definition crypto_pbkdf2 :: "env \<Rightarrow> string \<Rightarrow> string \<Rightarrow> int option \<Rightarrow> nat \<Rightarrow> thrown + buffer" where
  "crypto_pbkdf2 E password salt iterations keylen =
     (case iterations of
        None \<Rightarrow> Inl (Error ''The value of iterations is out of range'')
      | Some n \<Rightarrow>
          if n < 1 \<or> 2147483647 < n
          then Inl (Error ''The value of iterations is out of range'')
          else Inr (pbkdf2_hmac (sha512 E) (utf8 password) (utf8 salt) (nat n) keylen))"

section \<open>PasswordService: hashing\<close>

text \<open>
  \<open>hashPassword\<close>; \<open>saltBytes\<close> is what \<open>crypto.randomBytes(16)\<close> returned. The result is
  the promise's: \<open>Inl\<close> when it rejects or the function throws.
\<close>

definition hashPassword :: "env \<Rightarrow> buffer \<Rightarrow> string \<Rightarrow> thrown + string" where
  "hashPassword E saltBytes password =
     (if password = [] \<or> length password < 8
      then Inl (Error ''Password must be at least 8 characters long'')
      else if 128 < length password
      then Inl (Error ''Password must be less than 128 characters long'')
      else
        (let salt = toString_hex saltBytes
         in case crypto_pbkdf2 E password salt (Some 100000) 64 of
              Inl e \<Rightarrow> Inl e
            | Inr derivedKey \<Rightarrow> Inr (salt @ '':'' @ toString_hex derivedKey @ '':100000'')))"

text \<open>
  \<open>verifyPassword\<close>. The \<open>try\<close> block returns the promise without awaiting it, and what the
  executor of a promise throws rejects that promise: so an error of \<open>crypto.pbkdf2\<close> is
  the rejection of the result and never reaches the \<open>catch\<close>.
\<close>

definition verifyPassword :: "env \<Rightarrow> string \<Rightarrow> string \<Rightarrow> thrown + bool" where
  "verifyPassword E password storedHash =
     (if password = [] \<or> storedHash = [] then Inr False
      else
        (let parts = split_on CHR '':'' storedHash;
             salt = parts ! 0;
             hash = nth_opt parts 1;
             iterCount = parseInt (nth_opt parts 2)
         in case crypto_pbkdf2 E password salt iterCount 64 of
              Inl e \<Rightarrow> Inl e
            | Inr derivedKey \<Rightarrow> Inr (Some (toString_hex derivedKey) = hash)))"

section \<open>The database\<close>

text \<open>
  The tables of \<open>db/schema/auth.ts\<close> that the token and password code reads and writes.
  The rows of \<open>refresh_tokens\<close> have the \<open>token_hash\<close> column that migration 0001 adds in
  the database; the table object of \<open>db/schema/auth.ts\<close>, through which the code builds
  its statements, does not declare it. A table is
  the list of its rows; \<open>select ... limit 1\<close> takes the first row that matches. An id is
  a string, compared for equality. The audit log is kept without its own ids, which
  nothing reads; the foreign keys are not modelled, the code below writing rows only for
  users it has just read.
\<close>

datatype json =
    JString string | JNumber int | JBool bool | JDate time | JUndefined
  | JObject "(string \<times> json) list"

definition jopt :: "string option \<Rightarrow> json" where
  "jopt x = (case x of None \<Rightarrow> JUndefined | Some s \<Rightarrow> JString s)"

record user_row =
  u_id :: string
  u_email :: string
  u_passwordHash :: string
  u_name :: string
  u_role :: string
  u_status :: string
  u_avatarUrl :: "string option"
  u_lastLoginAt :: "time option"
  u_emailVerified :: bool
  u_passwordResetToken :: "string option"
  u_passwordResetExpires :: "time option"
  u_failedLoginAttempts :: int
  u_lockedUntil :: "time option"
  u_updatedAt :: time

record refresh_token_row =
  rt_id :: string
  rt_userId :: string
  rt_token :: string
  rt_tokenHash :: "string option"
  rt_deviceFingerprint :: "string option"
  rt_expiresAt :: time
  rt_isActive :: bool
  rt_lastUsedAt :: "time option"
  rt_createdAt :: time
  rt_ipAddress :: "string option"
  rt_userAgent :: "string option"

record audit_log_row =
  al_actorId :: "string option"
  al_action :: string
  al_targetId :: "string option"
  al_targetResource :: "string option"
  al_metadata :: "(string \<times> json) list"
  al_ipAddress :: "string option"
  al_userAgent :: "string option"
  al_success :: bool
  al_errorMessage :: "string option"
  al_createdAt :: time

record db =
  users :: "user_row list"
  refresh_tokens :: "refresh_token_row list"
  audit_logs :: "audit_log_row list"

text \<open>
  \<open>db.insert(refreshTokens)\<close>: the primary key, the unique constraint on \<open>token\<close> and the
  unique index on \<open>token_hash\<close> (which admits several nulls) reject a duplicate; the driver
  then throws.
\<close>

definition violates_unique :: "refresh_token_row list \<Rightarrow> refresh_token_row \<Rightarrow> bool" where
  "violates_unique rows r =
     list_ex (\<lambda>x. rt_id x = rt_id r \<or> rt_token x = rt_token r \<or>
                   (rt_tokenHash r \<noteq> None \<and> rt_tokenHash x = rt_tokenHash r)) rows"

definition insert_refreshToken :: "db \<Rightarrow> refresh_token_row \<Rightarrow> thrown + db" where
  "insert_refreshToken d r =
     (if violates_unique (refresh_tokens d) r
      then Inl (Error ''duplicate key value violates unique constraint'')
      else Inr (d\<lparr>refresh_tokens := refresh_tokens d @ [r]\<rparr>))"

text \<open>\<open>db.update(refreshTokens).set(...).where(eq(refreshTokens.id, id))\<close>, for the two
  \<open>set\<close> clauses of \<open>refreshTokens\<close>.\<close>

definition deactivate_by_id :: "db \<Rightarrow> string \<Rightarrow> db" where
  "deactivate_by_id d i =
     d\<lparr>refresh_tokens := map (\<lambda>r. if rt_id r = i then r\<lparr>rt_isActive := False\<rparr> else r)
                              (refresh_tokens d)\<rparr>"

definition rotate_by_id :: "db \<Rightarrow> string \<Rightarrow> time \<Rightarrow> db" where
  "rotate_by_id d i now =
     d\<lparr>refresh_tokens :=
         map (\<lambda>r. if rt_id r = i then r\<lparr>rt_isActive := False, rt_lastUsedAt := Some now\<rparr> else r)
             (refresh_tokens d)\<rparr>"

text \<open>
  \<open>eq(refreshTokens.tokenHash, h)\<close>: \<open>refreshTokens\<close> declares no \<open>tokenHash\<close>, so the left
  side is \<open>undefined\<close>, the condition is rendered without it, the statement is not
  well-formed SQL and the driver throws when it is run, whatever the table holds.
  \<open>query_error\<close> stands for the driver's error; nothing depends on its text.
\<close>

definition query_error :: thrown where
  "query_error = Error ''syntax error at or near =''"

definition select_active_by_tokenHash :: "db \<Rightarrow> string \<Rightarrow> thrown + refresh_token_row option" where
  "select_active_by_tokenHash d h = Inl query_error"

section \<open>jsonwebtoken\<close>

text \<open>
  \<open>jwt.sign(payload, secret, {expiresIn, issuer, audience})\<close>: the claims \<open>iat\<close> and \<open>exp\<close>
  are whole seconds of the clock, the issuer and audience are added when given.
\<close>

definition jwt_sign ::
  "env \<Rightarrow> jwt_payload \<Rightarrow> string \<Rightarrow> nat \<Rightarrow> string option \<Rightarrow> string option \<Rightarrow> time \<Rightarrow> string" where
  "jwt_sign E payload secret expiresIn issuer audience now =
     (let iat = now div 1000
      in jws_encode E
           \<lparr>jws_key = secret,
            jws_payload = payload
              \<lparr>p_iat := Some iat, p_exp := Some (iat + expiresIn),
               p_iss := (case issuer of None \<Rightarrow> p_iss payload | Some i \<Rightarrow> Some i),
               p_aud := (case audience of None \<Rightarrow> p_aud payload | Some a \<Rightarrow> Some a)\<rparr>\<rparr>)"

text \<open>
  \<open>jwt.verify(token, secret, {issuer, audience})\<close>, in the order the library checks: the
  token's form, its signature, \<open>nbf\<close>, \<open>exp\<close>, the audience, the issuer. \<open>NotBeforeError\<close>
  and \<open>TokenExpiredError\<close> are subclasses of \<open>JsonWebTokenError\<close>; \<open>OtherError\<close> is any
  other thrown value, which this model of the library never produces.
\<close>

datatype jwt_error = TokenExpiredError | NotBeforeError | JsonWebTokenError | OtherError

definition jwt_verify ::
  "env \<Rightarrow> string \<Rightarrow> string \<Rightarrow> string option \<Rightarrow> string option \<Rightarrow> time \<Rightarrow> jwt_error + jwt_payload" where
  "jwt_verify E token secret issuer audience now =
     (if token = [] then Inl JsonWebTokenError
      else case jws_decode E token of
        None \<Rightarrow> Inl JsonWebTokenError
      | Some j \<Rightarrow>
          (let p = jws_payload j; clockTimestamp = now div 1000
           in if jws_key j \<noteq> secret then Inl JsonWebTokenError
              else if (case p_nbf p of None \<Rightarrow> False | Some n \<Rightarrow> clockTimestamp < n)
              then Inl NotBeforeError
              else if (case p_exp p of None \<Rightarrow> False | Some e \<Rightarrow> e \<le> clockTimestamp)
              then Inl TokenExpiredError
              else if (case audience of None \<Rightarrow> False | Some a \<Rightarrow> p_aud p \<noteq> Some a)
              then Inl JsonWebTokenError
              else if (case issuer of None \<Rightarrow> False | Some i \<Rightarrow> p_iss p \<noteq> Some i)
              then Inl JsonWebTokenError
              else Inr p))"

section \<open>JWTService\<close>

record TokenPair =
  accessToken :: string
  refreshToken :: string
  expiresIn :: nat

definition empty_payload :: jwt_payload where
  "empty_payload =
     \<lparr>p_userId = None, p_email = None, p_role = None, p_type = None, p_iat = None,
      p_nbf = None, p_exp = None, p_iss = None, p_aud = None\<rparr>"

definition hashToken :: "env \<Rightarrow> string \<Rightarrow> string" where
  "hashToken E token = toString_hex (sha256 E (utf8 token))"

definition generateAccessToken :: "env \<Rightarrow> string \<Rightarrow> string \<Rightarrow> string \<Rightarrow> time \<Rightarrow> string" where
  "generateAccessToken E userId email role now =
     jwt_sign E (empty_payload\<lparr>p_userId := Some userId, p_email := Some email, p_role := Some role\<rparr>)
       (JWT_SECRET E) (15 * 60) (Some ''epop-platform'') (Some ''epop-client'') now"

definition generateRefreshToken :: "env \<Rightarrow> time \<Rightarrow> string" where
  "generateRefreshToken E now =
     jwt_sign E (empty_payload\<lparr>p_type := Some ''refresh''\<rparr>)
       (JWT_REFRESH_SECRET E) (7 * 24 * 60 * 60) None None now"

definition verifyAccessToken :: "env \<Rightarrow> string \<Rightarrow> time \<Rightarrow> thrown + jwt_payload" where
  "verifyAccessToken E token now =
     (case jwt_verify E token (JWT_SECRET E) (Some ''epop-platform'') (Some ''epop-client'') now of
        Inr p \<Rightarrow> Inr p
      | Inl TokenExpiredError \<Rightarrow> Inl (Error ''Access token expired'')
      | Inl OtherError \<Rightarrow> Inl (Error ''Token verification failed'')
      | Inl _ \<Rightarrow> Inl (Error ''Invalid access token''))"

definition verifyRefreshToken :: "env \<Rightarrow> string \<Rightarrow> time \<Rightarrow> thrown + jwt_payload" where
  "verifyRefreshToken E token now =
     (case jwt_verify E token (JWT_REFRESH_SECRET E) None None now of
        Inr p \<Rightarrow> Inr p
      | Inl TokenExpiredError \<Rightarrow> Inl (Error ''Refresh token expired'')
      | Inl OtherError \<Rightarrow> Inl (Error ''Refresh token verification failed'')
      | Inl _ \<Rightarrow> Inl (Error ''Invalid refresh token''))"

definition createAuditLog :: "db \<Rightarrow> audit_log_row \<Rightarrow> db" where
  "createAuditLog d entry = d\<lparr>audit_logs := audit_logs d @ [entry]\<rparr>"

text \<open>
  \<open>createTokenPair\<close>. \<open>rid\<close> is the random uuid the database gives the new row; \<open>now\<close> is
  the clock, read as one instant for the whole call. The \<open>values\<close> of the insert name
  \<open>tokenHash\<close>, which is no column of the table object: the query builder leaves the key
  out and the row's \<open>token_hash\<close> stays null. The result is the promise's outcome
  together with the database as the call leaves it.
\<close>

definition createTokenPair ::
  "env \<Rightarrow> db \<Rightarrow> string \<Rightarrow> string option \<Rightarrow> string option \<Rightarrow> string option \<Rightarrow> string \<Rightarrow> time
     \<Rightarrow> (thrown + TokenPair) \<times> db" where
  "createTokenPair E d userId deviceFingerprint ipAddress userAgent rid now =
     (case find (\<lambda>u. u_id u = userId) (users d) of
        None \<Rightarrow> (Inl (Error ''User not found''), d)
      | Some user \<Rightarrow>
          (let accessTok = generateAccessToken E (u_id user) (u_email user) (u_role user) now;
               refreshTok = generateRefreshToken E now;
               expiresAt = setDate_getDate_plus E now 7;
               refreshTokenHash = hashToken E refreshTok
           in case insert_refreshToken d
                     \<lparr>rt_id = rid, rt_userId = u_id user, rt_token = refreshTok,
                      rt_tokenHash = None,
                      rt_deviceFingerprint = deviceFingerprint, rt_expiresAt = expiresAt,
                      rt_isActive = True, rt_lastUsedAt = None, rt_createdAt = now,
                      rt_ipAddress = ipAddress, rt_userAgent = userAgent\<rparr> of
                Inl e \<Rightarrow> (Inl e, d)
              | Inr d1 \<Rightarrow>
                  (Inr \<lparr>accessToken = accessTok, refreshToken = refreshTok, expiresIn = 15 * 60\<rparr>,
                   createAuditLog d1
                     \<lparr>al_actorId = Some userId, al_action = ''TOKEN_REFRESH_CREATED'',
                      al_targetId = None, al_targetResource = Some ''refresh_token'',
                      al_metadata = [(''deviceFingerprint'', jopt deviceFingerprint),
                                     (''ipAddress'', jopt ipAddress)],
                      al_ipAddress = ipAddress, al_userAgent = userAgent, al_success = True,
                      al_errorMessage = None, al_createdAt = now\<rparr>)))"

text \<open>
  \<open>refreshTokens\<close>, in the two parts its first database statement divides it into: the
  verification and the \<open>select\<close> of the active row, then everything from the expiry check
  on. Each \<open>await\<close> on the database is a point where another request can run. The
  \<open>select\<close> is the statement that throws, so the second part is written as the source
  has it but is never reached.
\<close>

definition refreshTokens_select :: "env \<Rightarrow> db \<Rightarrow> string \<Rightarrow> time \<Rightarrow> thrown + refresh_token_row" where
  "refreshTokens_select E d refreshTok now =
     (case verifyRefreshToken E refreshTok now of
        Inl e \<Rightarrow> Inl (Error ''Invalid or expired refresh token'')
      | Inr _ \<Rightarrow>
          (case select_active_by_tokenHash d (hashToken E refreshTok) of
             Inl e \<Rightarrow> Inl e
           | Inr None \<Rightarrow> Inl (Error ''Refresh token not found or inactive'')
           | Inr (Some tokenRecord) \<Rightarrow> Inr tokenRecord))"

definition refreshTokens_rotate ::
  "env \<Rightarrow> db \<Rightarrow> refresh_token_row \<Rightarrow> string option \<Rightarrow> string option \<Rightarrow> string option \<Rightarrow> string \<Rightarrow> time
     \<Rightarrow> (thrown + TokenPair) \<times> db" where
  "refreshTokens_rotate E d tokenRecord deviceFingerprint ipAddress userAgent rid now =
     (if rt_expiresAt tokenRecord < now
      then (Inl (Error ''Refresh token expired''), deactivate_by_id d (rt_id tokenRecord))
      else
        (let d1 = rotate_by_id d (rt_id tokenRecord) now
         in case createTokenPair E d1 (rt_userId tokenRecord) deviceFingerprint ipAddress
                   userAgent rid now of
              (Inl e, d2) \<Rightarrow> (Inl e, d2)
            | (Inr tokenPair, d2) \<Rightarrow>
                (Inr tokenPair,
                 createAuditLog d2
                   \<lparr>al_actorId = Some (rt_userId tokenRecord), al_action = ''TOKEN_REFRESHED'',
                    al_targetId = None, al_targetResource = Some ''refresh_token'',
                    al_metadata = [(''oldTokenId'', JString (rt_id tokenRecord)),
                                   (''deviceFingerprint'', jopt deviceFingerprint)],
                    al_ipAddress = ipAddress, al_userAgent = userAgent, al_success = True,
                    al_errorMessage = None, al_createdAt = now\<rparr>)))"

definition refreshTokens ::
  "env \<Rightarrow> db \<Rightarrow> string \<Rightarrow> string option \<Rightarrow> string option \<Rightarrow> string option \<Rightarrow> string \<Rightarrow> time
     \<Rightarrow> (thrown + TokenPair) \<times> db" where
  "refreshTokens E d refreshTok deviceFingerprint ipAddress userAgent rid now =
     (case refreshTokens_select E d refreshTok now of
        Inl e \<Rightarrow> (Inl e, d)
      | Inr tokenRecord \<Rightarrow>
          refreshTokens_rotate E d tokenRecord deviceFingerprint ipAddress userAgent rid now)"

definition revokeAllRefreshTokens :: "db \<Rightarrow> string \<Rightarrow> db" where
  "revokeAllRefreshTokens d userId =
     d\<lparr>refresh_tokens := map (\<lambda>r. if rt_userId r = userId then r\<lparr>rt_isActive := False\<rparr> else r)
                              (refresh_tokens d)\<rparr>"

section \<open>The auth middleware\<close>

record identity =
  i_id :: string
  i_email :: string
  i_role :: string

record request =
  headers :: "string \<Rightarrow> string option"
  cookies :: "string \<Rightarrow> string option"
  req_ip :: "string option"
  req_user :: "identity option"

record cookie =
  c_name :: string
  c_value :: string
  c_httpOnly :: bool
  c_secure :: bool
  c_sameSite :: string
  c_maxAge :: nat

record response =
  status :: nat
  body :: "(string \<times> json) list"
  set_cookies :: "cookie list"

definition json_response :: "(string \<times> json) list \<Rightarrow> nat \<Rightarrow> response" where
  "json_response b st = \<lparr>status = st, body = b, set_cookies = []\<rparr>"

definition extractTokenFromRequest :: "request \<Rightarrow> string option" where
  "extractTokenFromRequest req =
     (case headers req ''authorization'' of
        Some authHeader \<Rightarrow>
          if authHeader \<noteq> [] \<and> startsWith authHeader ''Bearer '' then Some (drop 7 authHeader)
          else cookies req ''access_token''
      | None \<Rightarrow> cookies req ''access_token'')"

text \<open>The \<open>catch\<close> block of \<open>withAuth\<close>.\<close>

definition withAuth_catch :: "thrown \<Rightarrow> response" where
  "withAuth_catch e =
     (case e of
        Error m \<Rightarrow>
          if includes_str m ''expired''
          then json_response [(''error'', JString ''Token expired''),
                              (''code'', JString ''TOKEN_EXPIRED'')] 401
          else if includes_str m ''invalid'' \<or> includes_str m ''verification failed''
          then json_response [(''error'', JString ''Invalid token'')] 401
          else json_response [(''error'', JString ''Authentication failed'')] 401
      | NotAnError \<Rightarrow> json_response [(''error'', JString ''Authentication failed'')] 401)"

text \<open>
  \<open>withAuth(handler)\<close> applied to a request. The handler is any function from the request
  it is given to the response it returns or the value it throws.
\<close>

definition withAuth ::
  "(request \<Rightarrow> thrown + response) \<Rightarrow> env \<Rightarrow> db \<Rightarrow> time \<Rightarrow> request \<Rightarrow> response" where
  "withAuth handler E d now req =
     (case extractTokenFromRequest req of
        None \<Rightarrow> json_response [(''error'', JString ''Authentication required'')] 401
      | Some token \<Rightarrow>
          if token = [] then json_response [(''error'', JString ''Authentication required'')] 401
          else
            (case verifyAccessToken E token now of
               Inl e \<Rightarrow> withAuth_catch e
             | Inr payload \<Rightarrow>
                 (case find (\<lambda>u. Some (u_id u) = p_userId payload) (users d) of
                    None \<Rightarrow> json_response [(''error'', JString ''User not found'')] 401
                  | Some user \<Rightarrow>
                      if u_status user \<noteq> ''ACTIVE''
                      then json_response [(''error'', JString ''Account is not active'')] 403
                      else
                        (case handler (req\<lparr>req_user :=
                                 Some \<lparr>i_id = u_id user, i_email = u_email user,
                                       i_role = u_role user\<rparr>\<rparr>) of
                           Inr res \<Rightarrow> res
                         | Inl e \<Rightarrow> withAuth_catch e))))"

section \<open>PasswordService: lockout and reset\<close>

definition isUserLocked :: "db \<Rightarrow> string \<Rightarrow> time \<Rightarrow> bool" where
  "isUserLocked d userId now =
     (case find (\<lambda>u. u_id u = userId) (users d) of
        None \<Rightarrow> False
      | Some user \<Rightarrow>
          if (case u_lockedUntil user of None \<Rightarrow> False | Some t \<Rightarrow> now < t) then True
          else 5 \<le> u_failedLoginAttempts user)"

definition thirtyMinutes :: nat where
  "thirtyMinutes = 30 * 60 * 1000"

text \<open>
  \<open>recordFailedLogin\<close>. Below five attempts \<open>lockedUntil\<close> is \<open>undefined\<close> in the \<open>set\<close>
  clause, and the query builder leaves such a column as it is. \<open>setMinutes\<close> with thirty
  minutes more is \<open>thirtyMinutes\<close> later, the offset of the time zone staying as it is.
\<close>

definition recordFailedLogin :: "db \<Rightarrow> string \<Rightarrow> string option \<Rightarrow> string option \<Rightarrow> time \<Rightarrow> db" where
  "recordFailedLogin d userId ipAddress userAgent now =
     (case find (\<lambda>u. u_id u = userId) (users d) of
        None \<Rightarrow> d
      | Some user \<Rightarrow>
          (let newFailedAttempts = u_failedLoginAttempts user + 1;
               lockedUntil = (if 5 \<le> newFailedAttempts then Some (now + thirtyMinutes) else None);
               d1 = d\<lparr>users :=
                      map (\<lambda>u. if u_id u = userId
                                then u\<lparr>u_failedLoginAttempts := newFailedAttempts,
                                       u_lockedUntil := (case lockedUntil of
                                                           None \<Rightarrow> u_lockedUntil u
                                                         | Some t \<Rightarrow> Some t)\<rparr>
                                else u) (users d)\<rparr>
           in d1\<lparr>audit_logs := audit_logs d1 @
                 [\<lparr>al_actorId = Some userId, al_action = ''LOGIN_FAILED'', al_targetId = None,
                   al_targetResource = Some ''user'',
                   al_metadata =
                     [(''failedAttempts'', JNumber newFailedAttempts),
                      (''accountLocked'', JBool (lockedUntil \<noteq> None)),
                      (''lockedUntil'',
                         (case lockedUntil of None \<Rightarrow> JUndefined | Some t \<Rightarrow> JDate t))],
                   al_ipAddress = ipAddress, al_userAgent = userAgent, al_success = False,
                   al_errorMessage = Some (''Failed login attempt '' @ show_int newFailedAttempts),
                   al_createdAt = now\<rparr>]\<rparr>))"

definition resetFailedLoginAttempts ::
  "db \<Rightarrow> string \<Rightarrow> string option \<Rightarrow> string option \<Rightarrow> time \<Rightarrow> db" where
  "resetFailedLoginAttempts d userId ipAddress userAgent now =
     (let d1 = d\<lparr>users :=
                  map (\<lambda>u. if u_id u = userId
                            then u\<lparr>u_failedLoginAttempts := 0, u_lockedUntil := None,
                                   u_lastLoginAt := Some now\<rparr>
                            else u) (users d)\<rparr>
      in d1\<lparr>audit_logs := audit_logs d1 @
            [\<lparr>al_actorId = Some userId, al_action = ''LOGIN_SUCCESS'', al_targetId = None,
              al_targetResource = Some ''user'', al_metadata = [], al_ipAddress = ipAddress,
              al_userAgent = userAgent, al_success = True, al_errorMessage = None,
              al_createdAt = now\<rparr>]\<rparr>)"

text \<open>
  \<open>resetPassword\<close>; \<open>saltBytes\<close> is the salt \<open>hashPassword\<close> draws. The token is looked up
  in the \<open>password_reset_token\<close> column of \<open>users\<close>, where a null matches nothing.
\<close>

definition resetPassword ::
  "env \<Rightarrow> db \<Rightarrow> buffer \<Rightarrow> string \<Rightarrow> string \<Rightarrow> string option \<Rightarrow> string option \<Rightarrow> time
     \<Rightarrow> (thrown + unit) \<times> db" where
  "resetPassword E d saltBytes resetToken newPassword ipAddress userAgent now =
     (case find (\<lambda>u. u_passwordResetToken u = Some resetToken) (users d) of
        None \<Rightarrow> (Inl (Error ''Invalid or expired reset token''), d)
      | Some user \<Rightarrow>
          if (case u_passwordResetExpires user of None \<Rightarrow> True | Some t \<Rightarrow> t < now)
          then (Inl (Error ''Reset token has expired''), d)
          else
            (case hashPassword E saltBytes newPassword of
               Inl e \<Rightarrow> (Inl e, d)
             | Inr newPasswordHash \<Rightarrow>
                 (let d1 = d\<lparr>users :=
                              map (\<lambda>u. if u_id u = u_id user
                                        then u\<lparr>u_passwordHash := newPasswordHash,
                                               u_passwordResetToken := None,
                                               u_passwordResetExpires := None,
                                               u_failedLoginAttempts := 0,
                                               u_lockedUntil := None,
                                               u_updatedAt := now\<rparr>
                                        else u) (users d)\<rparr>;
                      d2 = d1\<lparr>audit_logs := audit_logs d1 @
                             [\<lparr>al_actorId = Some (u_id user), al_action = ''PASSWORD_RESET'',
                               al_targetId = None, al_targetResource = Some ''user'',
                               al_metadata = [], al_ipAddress = ipAddress,
                               al_userAgent = userAgent, al_success = True,
                               al_errorMessage = None, al_createdAt = now\<rparr>]\<rparr>
                  in (Inr (), revokeAllRefreshTokens d2 (u_id user)))))"

definition oneHour :: nat where
  "oneHour = 60 * 60 * 1000"

text \<open>
  \<open>generatePasswordResetToken\<close>; \<open>token\<close> is the base64 text of the random uuid it draws.
\<close>

definition generatePasswordResetToken ::
  "db \<Rightarrow> string \<Rightarrow> string \<Rightarrow> time \<Rightarrow> (thrown + string) \<times> db" where
  "generatePasswordResetToken d email token now =
     (case find (\<lambda>u. u_email u = email) (users d) of
        None \<Rightarrow> (Inl (Error ''User with this email does not exist''), d)
      | Some user \<Rightarrow>
          (let d1 = d\<lparr>users :=
                       map (\<lambda>u. if u_id u = u_id user
                                 then u\<lparr>u_passwordResetToken := Some token,
                                        u_passwordResetExpires := Some (now + oneHour),
                                        u_updatedAt := now\<rparr>
                                 else u) (users d)\<rparr>
           in (Inr token,
               d1\<lparr>audit_logs := audit_logs d1 @
                  [\<lparr>al_actorId = Some (u_id user), al_action = ''PASSWORD_RESET_REQUESTED'',
                    al_targetId = None, al_targetResource = Some ''user'',
                    al_metadata = [(''email'', JString (u_email user))], al_ipAddress = None,
                    al_userAgent = None, al_success = True, al_errorMessage = None,
                    al_createdAt = now\<rparr>]\<rparr>)))"

section \<open>The login route\<close>

definition toLowerCase_char :: "char \<Rightarrow> char" where
  "toLowerCase_char c =
     (let n = of_char c :: nat
      in if (65 \<le> n \<and> n \<le> 90) \<or> (192 \<le> n \<and> n \<le> 222 \<and> n \<noteq> 215) then char_of (n + 32) else c)"

definition toLowerCase :: "string \<Rightarrow> string" where
  "toLowerCase s = map toLowerCase_char s"

definition or_else :: "string option \<Rightarrow> string option \<Rightarrow> string option" where
  "or_else a b = (case a of Some x \<Rightarrow> (if x = [] then b else Some x) | None \<Rightarrow> b)"

text \<open>
  The handler of \<open>POST /api/auth/login\<close> after the body has passed its schema, inside the
  rate limiter and the CORS wrapper. The user object of the successful response keeps
  the columns the handler copies.
\<close>

definition login ::
  "env \<Rightarrow> db \<Rightarrow> string \<Rightarrow> string \<Rightarrow> bool \<Rightarrow> request \<Rightarrow> string \<Rightarrow> time \<Rightarrow> response \<times> db" where
  "login E d email password rememberMe req rid now =
     (case find (\<lambda>u. u_email u = toLowerCase email) (users d) of
        None \<Rightarrow> (json_response [(''error'', JString ''Invalid email or password'')] 401, d)
      | Some user \<Rightarrow>
          if isUserLocked d (u_id user) now
          then (json_response
                  [(''error'', JString ''Account temporarily locked due to too many failed login attempts. Please try again later.''),
                   (''code'', JString ''ACCOUNT_LOCKED'')] 423, d)
          else
            (let ipAddress = or_else (or_else (headers req ''x-forwarded-for'') (req_ip req))
                                     (Some ''unknown'');
                 userAgent = or_else (headers req ''user-agent'') (Some ''unknown'')
             in case verifyPassword E password (u_passwordHash user) of
                  Inl e \<Rightarrow> (json_response [(''error'', JString ''Login failed'')] 500, d)
                | Inr False \<Rightarrow>
                    (json_response [(''error'', JString ''Invalid email or password'')] 401,
                     recordFailedLogin d (u_id user) ipAddress userAgent now)
                | Inr True \<Rightarrow>
                    if u_status user \<noteq> ''ACTIVE''
                    then (json_response [(''error'', JString ''Account is not active''),
                                         (''code'', JString ''ACCOUNT_INACTIVE'')] 403, d)
                    else
                      (let d1 = resetFailedLoginAttempts d (u_id user) ipAddress userAgent now
                       in case createTokenPair E d1 (u_id user) userAgent ipAddress userAgent
                                 rid now of
                            (Inl e, d2) \<Rightarrow>
                              (json_response [(''error'', JString ''Login failed'')] 500, d2)
                          | (Inr tokenPair, d2) \<Rightarrow>
                              (let d3 = d2\<lparr>users :=
                                            map (\<lambda>u. if u_id u = u_id user
                                                      then u\<lparr>u_lastLoginAt := Some now,
                                                             u_updatedAt := now\<rparr>
                                                      else u) (users d2)\<rparr>;
                                   isSecure = (NODE_ENV E = Some ''production'');
                                   sameSite = (if isSecure then ''strict'' else ''lax'')
                               in (\<lparr>status = 200,
                                    body =
                                      [(''user'', JObject
                                          [(''id'', JString (u_id user)),
                                           (''name'', JString (u_name user)),
                                           (''email'', JString (u_email user)),
                                           (''role'', JString (u_role user)),
                                           (''emailVerified'', JBool (u_emailVerified user)),
                                           (''avatarUrl'', jopt (u_avatarUrl user))]),
                                       (''tokenPair'', JObject
                                          [(''accessToken'', JString (accessToken tokenPair)),
                                           (''refreshToken'', JString (refreshToken tokenPair)),
                                           (''expiresIn'', JNumber (int (expiresIn tokenPair)))])],
                                    set_cookies =
                                      [\<lparr>c_name = ''access_token'',
                                        c_value = accessToken tokenPair, c_httpOnly = False,
                                        c_secure = isSecure, c_sameSite = sameSite,
                                        c_maxAge = expiresIn tokenPair\<rparr>,
                                       \<lparr>c_name = ''refresh_token'',
                                        c_value = refreshToken tokenPair, c_httpOnly = True,
                                        c_secure = isSecure, c_sameSite = sameSite,
                                        c_maxAge = (if rememberMe then 30 * 24 * 60 * 60
                                                    else 7 * 24 * 60 * 60)\<rparr>]\<rparr>,
                                   d3)))))"

section \<open>Sequences of refresh calls\<close>

text \<open>
  Calls of \<open>refreshTokens\<close> with one token, one after the other: each call has its own
  other arguments, its own row id and its own clock, and runs on the database the call
  before it left. The result is the list of the calls' outcomes.
\<close>

record refresh_call =
  rc_deviceFingerprint :: "string option"
  rc_ipAddress :: "string option"
  rc_userAgent :: "string option"
  rc_rid :: string
  rc_now :: time

fun refreshTokens_calls :: "env \<Rightarrow> db \<Rightarrow> string \<Rightarrow> refresh_call list \<Rightarrow> (thrown + TokenPair) list" where
  "refreshTokens_calls E d t [] = []"
| "refreshTokens_calls E d t (c # cs) =
     (case refreshTokens E d t (rc_deviceFingerprint c) (rc_ipAddress c) (rc_userAgent c)
             (rc_rid c) (rc_now c) of
        (res, d') \<Rightarrow> res # refreshTokens_calls E d' t cs)"

text \<open>
  Two calls of \<open>refreshTokens\<close> with one token that overlap: both run their verification
  and their \<open>select\<close> (at \<open>startA\<close> and \<open>startB\<close>) on the database as it is, before either
  runs its next statement; then the first call runs to its end, then the second.
\<close>

definition refreshTokens_overlapped ::
  "env \<Rightarrow> db \<Rightarrow> string \<Rightarrow> time \<Rightarrow> refresh_call \<Rightarrow> time \<Rightarrow> refresh_call
     \<Rightarrow> (thrown + TokenPair) \<times> (thrown + TokenPair) \<times> db" where
  "refreshTokens_overlapped E d t startA a startB b =
     (let selA = refreshTokens_select E d t startA;
          selB = refreshTokens_select E d t startB;
          (resA, d1) =
            (case selA of
               Inl e \<Rightarrow> (Inl e, d)
             | Inr tokenRecord \<Rightarrow>
                 refreshTokens_rotate E d tokenRecord (rc_deviceFingerprint a) (rc_ipAddress a)
                   (rc_userAgent a) (rc_rid a) (rc_now a));
          (resB, d2) =
            (case selB of
               Inl e \<Rightarrow> (Inl e, d1)
             | Inr tokenRecord \<Rightarrow>
                 refreshTokens_rotate E d1 tokenRecord (rc_deviceFingerprint b) (rc_ipAddress b)
                   (rc_userAgent b) (rc_rid b) (rc_now b))
      in (resA, resB, d2))"

section \<open>A small instance\<close>

text \<open>
  One choice of the parameters and one database, on which the theorems below are
  instantiated. The stand-ins for the hash functions and for the serialisation are
  arbitrary: no theorem depends on what they are.
\<close>

definition demo_encode :: "jws \<Rightarrow> string" where
  "demo_encode j =
     jws_key j @ ''.'' @
     (case p_userId (jws_payload j) of None \<Rightarrow> ''refresh'' | Some u \<Rightarrow> u) @ ''.'' @
     (case p_iat (jws_payload j) of None \<Rightarrow> [] | Some n \<Rightarrow> replicate n CHR ''i'')"

definition demo_refresh_jws :: jws where
  "demo_refresh_jws =
     \<lparr>jws_key = ''rs'',
      jws_payload = empty_payload\<lparr>p_type := Some ''refresh'', p_iat := Some 1,
                                  p_exp := Some 604801\<rparr>\<rparr>"

definition demo_access_payload :: jwt_payload where
  "demo_access_payload =
     empty_payload\<lparr>p_userId := Some ''u1'', p_email := Some ''alice@example.com'',
                   p_role := Some ''USER'', p_iat := Some 1, p_exp := Some 901,
                   p_iss := Some ''epop-platform'', p_aud := Some ''epop-client''\<rparr>"

definition demo_access_jws :: jws where
  "demo_access_jws = \<lparr>jws_key = ''as'', jws_payload = demo_access_payload\<rparr>"

definition demo_forged_jws :: jws where
  "demo_forged_jws = \<lparr>jws_key = ''guess'', jws_payload = demo_access_payload\<rparr>"

definition demo_decode :: "string \<Rightarrow> jws option" where
  "demo_decode s =
     (if s = ''rs.refresh.i'' then Some demo_refresh_jws
      else if s = ''as.u1.i'' then Some demo_access_jws
      else if s = ''guess.u1.i'' then Some demo_forged_jws
      else None)"

definition demo_env :: env where
  "demo_env =
     \<lparr>JWT_SECRET = ''as'', JWT_REFRESH_SECRET = ''rs'',
      sha256 = (\<lambda>b. [of_nat (length b)]), sha512 = (\<lambda>b. take 64 b),
      jws_encode = demo_encode, jws_decode = demo_decode, NODE_ENV = None,
      localTZA = (\<lambda>t isUTC. 0)\<rparr>"

definition demo_user :: "string \<Rightarrow> string \<Rightarrow> user_row" where
  "demo_user i e =
     \<lparr>u_id = i, u_email = e,
      u_passwordHash = (case hashPassword demo_env [1, 2, 3] ''Passw0rd!'' of
                          Inl x \<Rightarrow> [] | Inr h \<Rightarrow> h),
      u_name = ''User'', u_role = ''USER'',
      u_status = ''ACTIVE'', u_avatarUrl = None, u_lastLoginAt = None, u_emailVerified = True,
      u_passwordResetToken = None, u_passwordResetExpires = None, u_failedLoginAttempts = 0,
      u_lockedUntil = None, u_updatedAt = 0\<rparr>"

definition demo_row :: "string \<Rightarrow> string \<Rightarrow> string \<Rightarrow> refresh_token_row" where
  "demo_row i u t =
     \<lparr>rt_id = i, rt_userId = u, rt_token = t, rt_tokenHash = None,
      rt_deviceFingerprint = None, rt_expiresAt = 604801000, rt_isActive = True,
      rt_lastUsedAt = None, rt_createdAt = 1000, rt_ipAddress = None, rt_userAgent = None\<rparr>"

definition demo_db :: db where
  "demo_db =
     \<lparr>users = [demo_user ''u1'' ''alice@example.com'', demo_user ''u2'' ''bob@example.com''],
      refresh_tokens = [demo_row ''r1'' ''u1'' ''rs.refresh.i'',
                        demo_row ''r2'' ''u2'' ''other''],
      audit_logs = []\<rparr>"

definition demo_request :: request where
  "demo_request =
     \<lparr>headers = (\<lambda>h. if h = ''authorization'' then Some ''Bearer as.u1.i'' else None),
      cookies = (\<lambda>c. None), req_ip = None, req_user = None\<rparr>"

definition demo_call :: "string \<Rightarrow> time \<Rightarrow> refresh_call" where
  "demo_call rid now =
     \<lparr>rc_deviceFingerprint = None, rc_ipAddress = None, rc_userAgent = None, rc_rid = rid,
      rc_now = now\<rparr>"

text \<open>
  The users of the instance with no refresh token yet, and the database after the first
  user was issued a token pair at 1000.
\<close>

definition demo_fresh_db :: db where
  "demo_fresh_db = demo_db\<lparr>refresh_tokens := []\<rparr>"

definition demo_issued_db :: db where
  "demo_issued_db = snd (createTokenPair demo_env demo_fresh_db ''u1'' None None None ''r1'' 1000)"

text \<open>A time zone an hour ahead of UTC until the instant 100000000, on UTC from then.\<close>

definition demo_env_dst :: env where
  "demo_env_dst = demo_env\<lparr>localTZA := (\<lambda>t isUTC. if t < 100000000 then 3600000 else 0)\<rparr>"

text \<open>The instance after a reset token was requested for the first user.\<close>

definition demo_reset_db :: db where
  "demo_reset_db = snd (generatePasswordResetToken demo_db ''alice@example.com'' ''dG9rZW4='' 1000)"

text \<open>The instance after five failed logins of the first user were recorded.\<close>

definition demo_locked_db :: db where
  "demo_locked_db =
     fold (\<lambda>now d. recordFailedLogin d ''u1'' None None now) [1000, 2000, 3000, 4000, 5000] demo_db"

section \<open>Properties\<close>

subsection \<open>Password digests\<close>

lemma hex_digit_not_colon: "n < 16 \<Longrightarrow> hex_digit n \<noteq> CHR '':''"
proof
  assume n: "n < 16" and eq: "hex_digit n = CHR '':''"
  from n have "''0123456789abcdef'' ! n \<in> set ''0123456789abcdef''"
    by (intro nth_mem) simp
  with eq show False by (simp add: hex_digit_def)
qed

lemma hex_byte_no_colon: "CHR '':'' \<notin> set (hex_byte b)"
proof -
  have "unat b < 256" using unsigned_less [of b] by simp
  then have "unat b div 16 < 16" by simp
  moreover have "unat b mod 16 < 16" by simp
  ultimately show ?thesis
    using hex_digit_not_colon [of "unat b div 16"] hex_digit_not_colon [of "unat b mod 16"]
    by (auto simp: hex_byte_def)
qed

lemma toString_hex_no_colon: "CHR '':'' \<notin> set (toString_hex bs)"
  using hex_byte_no_colon by (auto simp: toString_hex_def)

lemma hex_digit_inj:
  assumes "m < 16" and "n < 16" and "hex_digit m = hex_digit n"
  shows "m = n"
proof -
  have d: "distinct ''0123456789abcdef''" by simp
  from assms have "m < length ''0123456789abcdef''" "n < length ''0123456789abcdef''" by simp_all
  with d assms(3) show ?thesis
    unfolding hex_digit_def by (simp only: nth_eq_iff_index_eq)
qed

lemma hex_byte_inj:
  assumes "hex_byte a = hex_byte b"
  shows "a = b"
proof -
  have la: "unat a < 256" using unsigned_less [of a] by simp
  have lb: "unat b < 256" using unsigned_less [of b] by simp
  from assms have h: "hex_digit (unat a div 16) = hex_digit (unat b div 16)"
    and l: "hex_digit (unat a mod 16) = hex_digit (unat b mod 16)"
    by (simp_all add: hex_byte_def)
  from la lb have "unat a div 16 < 16" "unat b div 16 < 16" by simp_all
  from hex_digit_inj [OF this h] have q: "unat a div 16 = unat b div 16" .
  have "unat a mod 16 < 16" "unat b mod 16 < 16" by simp_all
  from hex_digit_inj [OF this l] have r: "unat a mod 16 = unat b mod 16" .
  have "unat a = 16 * (unat a div 16) + unat a mod 16" by simp
  also have "\<dots> = 16 * (unat b div 16) + unat b mod 16" by (simp only: q r)
  also have "\<dots> = unat b" by simp
  finally show ?thesis by (simp only: word_unat_eq_iff)
qed

lemma toString_hex_inj: "toString_hex a = toString_hex b \<Longrightarrow> a = b"
proof (induction a arbitrary: b)
  case Nil
  then show ?case by (cases b) (simp_all add: toString_hex_def hex_byte_def)
next
  case (Cons x xs)
  show ?case
  proof (cases b)
    case Nil
    with Cons.prems show ?thesis by (simp add: toString_hex_def hex_byte_def)
  next
    case (Cons y ys)
    with Cons.prems have e: "hex_byte x @ toString_hex xs = hex_byte y @ toString_hex ys"
      by (simp add: toString_hex_def)
    have "length (hex_byte x) = length (hex_byte y)" by (simp add: hex_byte_def)
    with e have "hex_byte x = hex_byte y" and "toString_hex xs = toString_hex ys"
      by simp_all
    with Cons.IH Cons show ?thesis by (simp add: hex_byte_inj)
  qed
qed

lemma split_on_no_sep: "c \<notin> set a \<Longrightarrow> split_on c a = [a]"
  by (induction a) auto

lemma split_on_append: "c \<notin> set a \<Longrightarrow> split_on c (a @ c # rest) = a # split_on c rest"
  by (induction a) auto

lemma parseInt_100000: "parseInt (Some ''100000'') = Some 100000"
  by (simp add: parseInt_def is_js_space_def is_digit_def digit_val_def)

lemma split_digest:
  "split_on CHR '':'' (toString_hex a @ CHR '':'' # toString_hex b @ '':100000'')
     = [toString_hex a, toString_hex b, ''100000'']"
  using split_on_append [OF toString_hex_no_colon, of a "toString_hex b @ '':100000''"]
        split_on_append [OF toString_hex_no_colon, of b "''100000''"]
  by simp

lemma hashPassword_digest:
  assumes "8 \<le> length p" and "length p \<le> 128"
  shows "hashPassword E salt p =
           Inr (toString_hex salt @ '':'' @
                toString_hex (pbkdf2_hmac (sha512 E) (utf8 p) (utf8 (toString_hex salt)) 100000 64) @
                '':100000'')"
  using assms by (auto simp: hashPassword_def crypto_pbkdf2_def Let_def)

lemma verifyPassword_digest:
  assumes "p' \<noteq> []"
  shows "verifyPassword E p' (toString_hex a @ '':'' @ toString_hex b @ '':100000'') =
           Inr (pbkdf2_hmac (sha512 E) (utf8 p') (utf8 (toString_hex a)) 100000 64 = b)"
proof -
  have "(toString_hex x = toString_hex b) = (x = b)" for x
    using toString_hex_inj by blast
  with assms show ?thesis
    by (simp add: verifyPassword_def split_digest nth_opt_def parseInt_100000 crypto_pbkdf2_def
          Let_def)
qed

lemma hmac_key_zero: 
  assumes l: "length K < 128" shows "hmac_key H (K @ [0]) = hmac_key H K"
proof -
  have e: "128 - length K = Suc (128 - Suc (length K))" using l by arith
  have r: "replicate (128 - length K) (0::8 word) = 0 # replicate (128 - Suc (length K)) 0"
    by (simp only: e replicate_Suc)
  have a: "\<not> 128 < length (K @ [0])" using l by simp
  have b: "\<not> 128 < length K" using l by simp
  have "hmac_key H (K @ [0]) = (K @ [0]) @ replicate (128 - length (K @ [0])) 0"
    by (simp only: hmac_key_def Let_def a if_False)
  also have "\<dots> = K @ 0 # replicate (128 - Suc (length K)) 0" by simp
  also have "\<dots> = K @ replicate (128 - length K) 0" by (simp only: r)
  also have "\<dots> = hmac_key H K" by (simp only: hmac_key_def Let_def b if_False)
  finally show ?thesis .
qed

lemma pbkdf2_rounds_key:
  assumes k: "hmac_key H P' = hmac_key H P"
  shows "pbkdf2_rounds H P' n u t = pbkdf2_rounds H P n u t"
proof (induction n arbitrary: u t)
  case 0
  show ?case by simp
next
  case (Suc n)
  have h: "hmac H P' u = hmac H P u"
    by (simp only: hmac_def k)
  show ?case by (simp only: pbkdf2_rounds.simps h Let_def Suc.IH)
qed

lemma pbkdf2_hmac_key:
  assumes k: "hmac_key H P' = hmac_key H P"
  shows "pbkdf2_hmac H P' S c n = pbkdf2_hmac H P S c n"
proof -
  have h: "hmac H P' m = hmac H P m" for m
    by (simp only: hmac_def k)
  have r: "pbkdf2_rounds H P' m u t = pbkdf2_rounds H P m u t" for m u t
    by (rule pbkdf2_rounds_key [OF k])
  have "pbkdf2_F H P' S c i = pbkdf2_F H P S c i" for i
    by (simp only: pbkdf2_F_def h r)
  then have f: "pbkdf2_F H P' S c = pbkdf2_F H P S c"
    by (rule ext)
  show ?thesis
    by (simp only: pbkdf2_hmac_def f)
qed

text \<open>
  C4, as the code has it. For a password \<open>p\<close> of 8 to 128 characters and any salt,
  \<open>hashPassword\<close> returns the digest \<open>salt:derivedKeyHex:100000\<close> (the salt in hex, the
  64-byte PBKDF2 key of \<open>p\<close> in hex, the iteration count), \<open>verifyPassword p\<close> of that
  digest is true, and \<open>verifyPassword p'\<close> of it is true exactly when \<open>p'\<close> is not empty and
  PBKDF2 derives the same key from \<open>p'\<close> under the stored salt and count: false for every
  \<open>p'\<close> with a different derived key, true for every other one, which is not only \<open>p\<close>.
\<close>

theorem verifyPassword_hashPassword:
  assumes "8 \<le> length p" and "length p \<le> 128"
  shows "\<exists>derivedKey.
           derivedKey = pbkdf2_hmac (sha512 E) (utf8 p) (utf8 (toString_hex salt)) 100000 64 \<and>
           hashPassword E salt p =
             Inr (toString_hex salt @ '':'' @ toString_hex derivedKey @ '':100000'') \<and>
           (\<forall>d. hashPassword E salt p = Inr d \<longrightarrow>
              verifyPassword E p d = Inr True \<and>
              (\<forall>p'. verifyPassword E p' d =
                 Inr (p' \<noteq> [] \<and>
                      pbkdf2_hmac (sha512 E) (utf8 p') (utf8 (toString_hex salt)) 100000 64 =
                      derivedKey)))"
proof -
  let ?dk = "pbkdf2_hmac (sha512 E) (utf8 p) (utf8 (toString_hex salt)) 100000 64"
  let ?d = "toString_hex salt @ '':'' @ toString_hex ?dk @ '':100000''"
  from assms have p: "p \<noteq> []" by auto
  have h: "hashPassword E salt p = Inr ?d"
    by (rule hashPassword_digest [OF assms])
  have v: "verifyPassword E p' ?d =
             Inr (p' \<noteq> [] \<and>
                  pbkdf2_hmac (sha512 E) (utf8 p') (utf8 (toString_hex salt)) 100000 64 = ?dk)"
    for p'
  proof (cases "p' = []")
    case True
    then show ?thesis by (simp add: verifyPassword_def)
  next
    case False
    then show ?thesis by (simp only: verifyPassword_digest [OF False] simp_thms)
  qed
  have self: "verifyPassword E p ?d = Inr True"
    by (simp only: v p simp_thms not_False_eq_True)
  show ?thesis
  proof (intro exI [of _ ?dk] conjI allI impI)
    show "?dk = ?dk" ..
    show "hashPassword E salt p = Inr ?d" by (rule h)
  next
    fix d assume "hashPassword E salt p = Inr d"
    with h have d: "d = ?d" by simp
    show "verifyPassword E p d = Inr True" unfolding d by (rule self)
  next
    fix d p' assume "hashPassword E salt p = Inr d"
    with h have d: "d = ?d" by simp
    show "verifyPassword E p' d =
            Inr (p' \<noteq> [] \<and>
                 pbkdf2_hmac (sha512 E) (utf8 p') (utf8 (toString_hex salt)) 100000 64 = ?dk)"
      unfolding d by (rule v)
  qed
qed

theorem verifyPassword_hashPassword_witness:
  "8 \<le> length ''Passw0rd!'' \<and> length ''Passw0rd!'' \<le> 128 \<and>
   (\<exists>d. hashPassword demo_env [1, 2, 3] ''Passw0rd!'' = Inr d \<and>
        verifyPassword demo_env ''Passw0rd!'' d = Inr True \<and>
        verifyPassword demo_env [] d = Inr False)"
proof -
  have a: "8 \<le> length ''Passw0rd!''" by simp
  have b: "length ''Passw0rd!'' \<le> 128" by simp
  from verifyPassword_hashPassword [OF a b, of demo_env "[1, 2, 3]"]
  obtain d where h: "hashPassword demo_env [1, 2, 3] ''Passw0rd!'' = Inr d"
    and v: "\<forall>d. hashPassword demo_env [1, 2, 3] ''Passw0rd!'' = Inr d \<longrightarrow>
              verifyPassword demo_env ''Passw0rd!'' d = Inr True \<and>
              (\<forall>p'. verifyPassword demo_env p' d =
                 Inr (p' \<noteq> [] \<and>
                      pbkdf2_hmac (sha512 demo_env) (utf8 p') (utf8 (toString_hex [1, 2, 3]))
                        100000 64 =
                      pbkdf2_hmac (sha512 demo_env) (utf8 ''Passw0rd!'')
                        (utf8 (toString_hex [1, 2, 3])) 100000 64))"
    by blast
  from v h have t: "verifyPassword demo_env ''Passw0rd!'' d = Inr True" by blast
  from v h have "verifyPassword demo_env [] d =
      Inr ([] \<noteq> ([] :: string) \<and>
           pbkdf2_hmac (sha512 demo_env) (utf8 []) (utf8 (toString_hex [1, 2, 3])) 100000 64 =
           pbkdf2_hmac (sha512 demo_env) (utf8 ''Passw0rd!'') (utf8 (toString_hex [1, 2, 3]))
             100000 64)"
    by blast
  then have f: "verifyPassword demo_env [] d = Inr False" by simp
  from a b h t f show ?thesis by blast
qed

text \<open>
  C4 as stated fails: a password followed by a NUL character is a different password
  that verifies against the digest of the first. HMAC fills a key shorter than its
  block with zero bytes, so both passwords give PBKDF2 the same key.
\<close>

theorem verifyPassword_nul_counterexample:
  "''Passw0rd!'' @ [CHR 0x00] \<noteq> ''Passw0rd!'' \<and>
   (case hashPassword demo_env [1, 2, 3] ''Passw0rd!'' of
      Inl e \<Rightarrow> False
    | Inr d \<Rightarrow> verifyPassword demo_env (''Passw0rd!'' @ [CHR 0x00]) d = Inr True)"
proof -
  have l: "length (utf8 ''Passw0rd!'') < 128"
    by (simp add: utf8_def utf8_char_def)
  have z: "utf8 (''Passw0rd!'' @ [CHR 0x00]) = utf8 ''Passw0rd!'' @ [0]"
    by (simp add: utf8_def utf8_char_def)
  have k: "hmac_key H (utf8 (''Passw0rd!'' @ [CHR 0x00])) = hmac_key H (utf8 ''Passw0rd!'')" for H
    unfolding z by (rule hmac_key_zero [OF l])
  have h: "hashPassword demo_env [1, 2, 3] ''Passw0rd!'' =
             Inr (toString_hex [1, 2, 3] @ '':'' @
                  toString_hex (pbkdf2_hmac (sha512 demo_env) (utf8 ''Passw0rd!'')
                                  (utf8 (toString_hex [1, 2, 3])) 100000 64) @ '':100000'')"
    by (rule hashPassword_digest) simp_all
  have v: "verifyPassword demo_env (''Passw0rd!'' @ [CHR 0x00])
             (toString_hex [1, 2, 3] @ '':'' @
              toString_hex (pbkdf2_hmac (sha512 demo_env) (utf8 ''Passw0rd!'')
                              (utf8 (toString_hex [1, 2, 3])) 100000 64) @ '':100000'') = Inr True"
    by (subst verifyPassword_digest) (simp_all only: pbkdf2_hmac_key [OF k], simp_all)
  have ne: "''Passw0rd!'' @ [CHR 0x00] \<noteq> ''Passw0rd!''" by simp
  have c: "(case hashPassword demo_env [1, 2, 3] ''Passw0rd!'' of
              Inl e \<Rightarrow> False
            | Inr d \<Rightarrow> verifyPassword demo_env (''Passw0rd!'' @ [CHR 0x00]) d = Inr True)"
    by (simp only: h sum.case v)
  from ne c show ?thesis ..
qed

text \<open>
  C5 does not hold of the code: for a stored digest without a numeric third field,
  \<open>parseInt\<close> gives \<open>NaN\<close>, \<open>crypto.pbkdf2\<close> throws inside the promise's executor, and the
  promise that \<open>verifyPassword\<close> returns rejects; the \<open>catch\<close> that would return false
  is never reached.
\<close>

theorem verifyPassword_rejects:
  "verifyPassword demo_env ''Passw0rd!'' ''not-a-digest'' =
     Inl (Error ''The value of iterations is out of range'')"
proof -
  have s: "split_on CHR '':'' ''not-a-digest'' = [''not-a-digest'']"
    by (rule split_on_no_sep) simp
  show ?thesis
    by (simp add: verifyPassword_def s nth_opt_def parseInt_def crypto_pbkdf2_def Let_def)
qed

subsection \<open>The small instance, evaluated\<close>

lemma demo_hashToken_2: "hashToken demo_env ''rs.refresh.ii'' = ''0d''"
  by (simp add: hashToken_def demo_env_def utf8_def utf8_char_def toString_hex_def hex_byte_def
        hex_digit_def)

lemma demo_verifyRefreshToken:
  "verifyRefreshToken demo_env ''rs.refresh.i'' now =
     (if now div 1000 < 604801 then Inr (jws_payload demo_refresh_jws)
      else Inl (Error ''Refresh token expired''))"
  by (simp add: verifyRefreshToken_def jwt_verify_def demo_env_def demo_decode_def
        demo_refresh_jws_def empty_payload_def Let_def)

lemma demo_generateRefreshToken:
  "generateRefreshToken demo_env now = ''rs.refresh.'' @ replicate (now div 1000) CHR ''i''"
  by (simp add: generateRefreshToken_def jwt_sign_def demo_env_def demo_encode_def
        empty_payload_def)

lemma demo_generateAccessToken:
  "generateAccessToken demo_env ''u1'' e r now = ''as.u1.'' @ replicate (now div 1000) CHR ''i''"
  by (simp add: generateAccessToken_def jwt_sign_def demo_env_def demo_encode_def
        empty_payload_def)

lemma demo_setDate: "setDate_getDate_plus demo_env now 7 = now + 604800000"
  by (simp add: setDate_getDate_plus_def UTC_time_def LocalTime_def demo_env_def)

lemma demo_issue:
  "createTokenPair demo_env demo_fresh_db ''u1'' None None None ''r1'' 1000 =
     (Inr \<lparr>accessToken = ''as.u1.i'', refreshToken = ''rs.refresh.i'', expiresIn = 900\<rparr>,
      demo_issued_db)"
proof -
  have "fst (createTokenPair demo_env demo_fresh_db ''u1'' None None None ''r1'' 1000) =
          Inr \<lparr>accessToken = ''as.u1.i'', refreshToken = ''rs.refresh.i'', expiresIn = 900\<rparr>"
    by (simp add: createTokenPair_def insert_refreshToken_def violates_unique_def Let_def
          demo_generateRefreshToken demo_generateAccessToken demo_fresh_db_def demo_db_def
          demo_user_def)
  then show ?thesis
    by (simp add: demo_issued_db_def prod_eq_iff)
qed

lemma demo_issued_db_eq:
  "demo_issued_db =
     \<lparr>users = users demo_db,
      refresh_tokens =
        [\<lparr>rt_id = ''r1'', rt_userId = ''u1'', rt_token = ''rs.refresh.i'', rt_tokenHash = None,
          rt_deviceFingerprint = None, rt_expiresAt = 604801000, rt_isActive = True,
          rt_lastUsedAt = None, rt_createdAt = 1000, rt_ipAddress = None,
          rt_userAgent = None\<rparr>],
      audit_logs =
        [\<lparr>al_actorId = Some ''u1'', al_action = ''TOKEN_REFRESH_CREATED'', al_targetId = None,
          al_targetResource = Some ''refresh_token'',
          al_metadata = [(''deviceFingerprint'', JUndefined), (''ipAddress'', JUndefined)],
          al_ipAddress = None, al_userAgent = None, al_success = True, al_errorMessage = None,
          al_createdAt = 1000\<rparr>]\<rparr>"
  by (simp add: demo_issued_db_def createTokenPair_def insert_refreshToken_def
        violates_unique_def Let_def createAuditLog_def demo_generateRefreshToken demo_setDate
        jopt_def demo_fresh_db_def demo_db_def demo_user_def)

lemma demo_issued_rows:
  "refresh_tokens demo_issued_db =
     [\<lparr>rt_id = ''r1'', rt_userId = ''u1'', rt_token = ''rs.refresh.i'', rt_tokenHash = None,
       rt_deviceFingerprint = None, rt_expiresAt = 604801000, rt_isActive = True,
       rt_lastUsedAt = None, rt_createdAt = 1000, rt_ipAddress = None, rt_userAgent = None\<rparr>]"
  by (simp add: demo_issued_db_eq)

lemma demo_issued_users: "users demo_issued_db = users demo_db"
  by (simp add: demo_issued_db_eq)

subsection \<open>Rotation of refresh tokens\<close>

lemma find_SomeD: "find P xs = Some x \<Longrightarrow> P x \<and> x \<in> set xs"
  by (induction xs) (auto split: if_splits)

text \<open>
  Every call of \<open>refreshTokens\<close> throws and leaves the database as it was: \<open>Invalid or
  expired refresh token\<close> when the token does not verify, the driver's error at the
  \<open>select\<close> when it does.
\<close>

lemma refreshTokens_throws:
  "refreshTokens E d t fp ip ua rid now =
     (Inl (if isl (verifyRefreshToken E t now) then Error ''Invalid or expired refresh token''
           else query_error), d)"
  by (simp add: refreshTokens_def refreshTokens_select_def select_active_by_tokenHash_def
        split: sum.splits)

lemma refreshTokens_calls_throw:
  "refreshTokens_calls E d t cs =
     map (\<lambda>c. Inl (if isl (verifyRefreshToken E t (rc_now c))
                    then Error ''Invalid or expired refresh token'' else query_error)) cs"
  by (induction cs) (simp_all add: refreshTokens_throws)

text \<open>
  The part of \<open>refreshTokens\<close> after the \<open>select\<close> does not read \<open>isActive\<close> of the row it
  was given, and its \<open>update\<close> is by row id alone.
\<close>

lemma refreshTokens_rotate_ignores_isActive:
  "refreshTokens_rotate E d (r\<lparr>rt_isActive := b\<rparr>) fp ip ua rid now =
     refreshTokens_rotate E d r fp ip ua rid now"
  by (simp add: refreshTokens_rotate_def Let_def split: prod.splits sum.splits)

text \<open>
  C1 does not hold of the code. The first user is issued a token pair at 1000; the row of
  the refresh token is active and the token verifies. The first call of \<open>refreshTokens\<close>
  with it, at 2000, does not succeed, and the call after it, at 3000, does not fail with
  \<open>Refresh token not found or inactive\<close>: both throw the driver's error at the \<open>select\<close>,
  whose condition names the undeclared \<open>tokenHash\<close>. No row is deactivated.
\<close>

theorem refreshTokens_issued_token_throws:
  "createTokenPair demo_env demo_fresh_db ''u1'' None None None ''r1'' 1000 =
     (Inr \<lparr>accessToken = ''as.u1.i'', refreshToken = ''rs.refresh.i'', expiresIn = 900\<rparr>,
      demo_issued_db) \<and>
   map (\<lambda>r. (rt_token r, rt_isActive r, rt_tokenHash r)) (refresh_tokens demo_issued_db) =
     [(''rs.refresh.i'', True, None)] \<and>
   verifyRefreshToken demo_env ''rs.refresh.i'' 2000 = Inr (jws_payload demo_refresh_jws) \<and>
   refreshTokens demo_env demo_issued_db ''rs.refresh.i'' None None None ''r2'' 2000 =
     (Inl query_error, demo_issued_db) \<and>
   refreshTokens_calls demo_env demo_issued_db ''rs.refresh.i''
     [demo_call ''r2'' 2000, demo_call ''r3'' 3000] = [Inl query_error, Inl query_error] \<and>
   query_error \<noteq> Error ''Refresh token not found or inactive''"
  by (simp add: demo_issue demo_issued_rows demo_verifyRefreshToken refreshTokens_throws
        refreshTokens_calls_throw demo_call_def query_error_def)

subsection \<open>Verification of access tokens\<close>

text \<open>
  C2, as the code has it. \<open>verifyAccessToken\<close> fails with \<open>Access token expired\<close> exactly
  when the string is a token whose signature verifies under the access secret, whose
  \<open>nbf\<close>, if it has one, has passed, and whose \<open>exp\<close> is at or before the clock in whole
  seconds; a token whose signature does not verify fails with \<open>Invalid access token\<close>
  whatever its \<open>exp\<close>, because the library checks the signature first.
\<close>

theorem verifyAccessToken_expired_iff:
  "(verifyAccessToken E s now = Inl (Error ''Access token expired'') \<longleftrightarrow>
      s \<noteq> [] \<and>
      (\<exists>j e. jws_decode E s = Some j \<and> jws_key j = JWT_SECRET E \<and>
             (\<forall>n. p_nbf (jws_payload j) = Some n \<longrightarrow> n \<le> now div 1000) \<and>
             p_exp (jws_payload j) = Some e \<and> e \<le> now div 1000)) \<and>
   (\<forall>j. s \<noteq> [] \<and> jws_decode E s = Some j \<and> jws_key j \<noteq> JWT_SECRET E \<longrightarrow>
      verifyAccessToken E s now = Inl (Error ''Invalid access token''))"
  by (auto simp: verifyAccessToken_def jwt_verify_def Let_def
           split: option.splits sum.splits jwt_error.splits if_splits)

lemma demo_decode_access: "jws_decode demo_env ''as.u1.i'' = Some demo_access_jws"
  by (simp add: demo_env_def demo_decode_def)

lemma demo_decode_forged: "jws_decode demo_env ''guess.u1.i'' = Some demo_forged_jws"
  by (simp add: demo_env_def demo_decode_def)

theorem verifyAccessToken_expired_iff_witness:
  "jws_decode demo_env ''as.u1.i'' = Some demo_access_jws \<and>
   jws_key demo_access_jws = JWT_SECRET demo_env \<and>
   p_exp (jws_payload demo_access_jws) = Some 901 \<and> (901 :: nat) \<le> 901000 div 1000 \<and>
   verifyAccessToken demo_env ''as.u1.i'' 901000 = Inl (Error ''Access token expired'') \<and>
   verifyAccessToken demo_env ''as.u1.i'' 900999 \<noteq> Inl (Error ''Access token expired'') \<and>
   jws_decode demo_env ''guess.u1.i'' = Some demo_forged_jws \<and>
   jws_key demo_forged_jws \<noteq> JWT_SECRET demo_env \<and>
   verifyAccessToken demo_env ''guess.u1.i'' 901000 = Inl (Error ''Invalid access token'')"
proof -
  have k: "jws_key demo_access_jws = JWT_SECRET demo_env"
    by (simp add: demo_access_jws_def demo_env_def)
  have e: "p_exp (jws_payload demo_access_jws) = Some 901"
    and n: "p_nbf (jws_payload demo_access_jws) = None"
    by (simp_all add: demo_access_jws_def demo_access_payload_def empty_payload_def)
  have g: "jws_key demo_forged_jws \<noteq> JWT_SECRET demo_env"
    by (simp add: demo_forged_jws_def demo_env_def)
  from verifyAccessToken_expired_iff [of demo_env "''as.u1.i''" 901000]
  have a: "verifyAccessToken demo_env ''as.u1.i'' 901000 = Inl (Error ''Access token expired'')"
    using demo_decode_access k e n by simp
  from verifyAccessToken_expired_iff [of demo_env "''as.u1.i''" 900999]
  have b: "verifyAccessToken demo_env ''as.u1.i'' 900999 \<noteq> Inl (Error ''Access token expired'')"
    using demo_decode_access k e n by simp
  from verifyAccessToken_expired_iff [of demo_env "''guess.u1.i''" 901000]
  have c: "verifyAccessToken demo_env ''guess.u1.i'' 901000 = Inl (Error ''Invalid access token'')"
    using demo_decode_forged g by simp
  from demo_decode_access k e a b demo_decode_forged g c show ?thesis by simp
qed

text \<open>
  C2 as stated fails: a token whose \<open>exp\<close> is long past but whose signature does not
  verify is not classified as expired.
\<close>

theorem verifyAccessToken_forged_counterexample:
  "jws_decode demo_env ''guess.u1.i'' = Some demo_forged_jws \<and>
   p_exp (jws_payload demo_forged_jws) = Some 901 \<and>
   (901 :: nat) < 2000000 div 1000 \<and>
   verifyAccessToken demo_env ''guess.u1.i'' 2000000 = Inl (Error ''Invalid access token'')"
  by (simp add: verifyAccessToken_def jwt_verify_def Let_def demo_decode_def
        demo_forged_jws_def demo_access_payload_def empty_payload_def demo_env_def)

subsection \<open>Issuing a token pair\<close>

lemma generateRefreshToken_same_second:
  "now div 1000 = now' div 1000 \<Longrightarrow> generateRefreshToken E now = generateRefreshToken E now'"
  by (simp add: generateRefreshToken_def jwt_sign_def)

text \<open>
  What \<open>createTokenPair\<close> does. It throws \<open>User not found\<close> when no user has the id. When
  one has, the insert of the new row is subject to the unique constraints of the table:
  if a row with the new id or the new refresh token exists already, the driver's error
  is thrown and the database is left as it was; otherwise one row is appended, active,
  owned by the user, holding the refresh token, no hash of it, and the expiry that
  \<open>setDate\<close> computes, and the call returns the access token, the refresh token and
  \<open>expiresIn = 900\<close>.
\<close>

lemma createTokenPair_cases:
  "(find (\<lambda>u. u_id u = userId) (users d) = None \<longrightarrow>
      createTokenPair E d userId fp ip ua rid now = (Inl (Error ''User not found''), d)) \<and>
   (\<forall>user. find (\<lambda>u. u_id u = userId) (users d) = Some user \<longrightarrow>
      (if list_ex (\<lambda>x. rt_id x = rid \<or> rt_token x = generateRefreshToken E now) (refresh_tokens d)
       then createTokenPair E d userId fp ip ua rid now =
              (Inl (Error ''duplicate key value violates unique constraint''), d)
       else (\<exists>pair d' row.
               createTokenPair E d userId fp ip ua rid now = (Inr pair, d') \<and>
               accessToken pair = generateAccessToken E userId (u_email user) (u_role user) now \<and>
               refreshToken pair = generateRefreshToken E now \<and>
               expiresIn pair = 900 \<and>
               users d' = users d \<and>
               refresh_tokens d' = refresh_tokens d @ [row] \<and>
               rt_isActive row \<and> rt_userId row = userId \<and> rt_token row = refreshToken pair \<and>
               rt_tokenHash row = None \<and>
               rt_expiresAt row = setDate_getDate_plus E now 7)))"
proof (intro conjI allI impI)
  assume "find (\<lambda>u. u_id u = userId) (users d) = None"
  then show "createTokenPair E d userId fp ip ua rid now = (Inl (Error ''User not found''), d)"
    by (simp add: createTokenPair_def)
next
  fix user
  assume f: "find (\<lambda>u. u_id u = userId) (users d) = Some user"
  then have u: "u_id user = userId" by (auto dest: find_SomeD)
  show "if list_ex (\<lambda>x. rt_id x = rid \<or> rt_token x = generateRefreshToken E now) (refresh_tokens d)
       then createTokenPair E d userId fp ip ua rid now =
              (Inl (Error ''duplicate key value violates unique constraint''), d)
       else (\<exists>pair d' row.
               createTokenPair E d userId fp ip ua rid now = (Inr pair, d') \<and>
               accessToken pair = generateAccessToken E userId (u_email user) (u_role user) now \<and>
               refreshToken pair = generateRefreshToken E now \<and>
               expiresIn pair = 900 \<and>
               users d' = users d \<and>
               refresh_tokens d' = refresh_tokens d @ [row] \<and>
               rt_isActive row \<and> rt_userId row = userId \<and> rt_token row = refreshToken pair \<and>
               rt_tokenHash row = None \<and>
               rt_expiresAt row = setDate_getDate_plus E now 7)"
    using f u
    by (simp add: createTokenPair_def insert_refreshToken_def violates_unique_def Let_def
          createAuditLog_def)
qed

text \<open>
  The expiry is seven days of 86400000 ms after now where the offset of local time from
  UTC is constant; where the offset changes within the seven days it is not.
\<close>

lemma setDate_constant_offset:
  assumes "\<And>t isUTC. localTZA E t isUTC = c"
  shows "setDate_getDate_plus E now 7 = now + 604800000"
  by (simp add: setDate_getDate_plus_def UTC_time_def LocalTime_def assms)

lemma setDate_offset_change:
  "setDate_getDate_plus demo_env_dst 1000 7 = 1000 + 604800000 + 3600000"
  by (simp add: setDate_getDate_plus_def UTC_time_def LocalTime_def demo_env_dst_def)

text \<open>
  A pair issued in the clock second of an earlier one is not issued: the refresh token is
  the same string, and the insert fails on the unique constraint of \<open>token\<close>.
\<close>

lemma createTokenPair_same_second:
  assumes "createTokenPair E d userId fp ip ua rid now = (Inr pair, d')"
    and "now' div 1000 = now div 1000"
  shows "isl (fst (createTokenPair E d' userId' fp' ip' ua' rid' now'))"
proof -
  have g: "generateRefreshToken E now' = generateRefreshToken E now"
    using assms(2) by (rule generateRefreshToken_same_second)
  from assms(1) have "list_ex (\<lambda>x. rt_token x = generateRefreshToken E now) (refresh_tokens d')"
    by (auto simp: createTokenPair_def insert_refreshToken_def Let_def createAuditLog_def
          split: option.splits if_splits)
  then have "violates_unique (refresh_tokens d') r" if "rt_token r = generateRefreshToken E now'" for r
    using that g by (auto simp: violates_unique_def list_ex_iff)
  then show ?thesis
    by (simp add: createTokenPair_def insert_refreshToken_def Let_def split: option.splits)
qed

text \<open>
  C7 does not hold of the code. For the first user, who exists, \<open>createTokenPair\<close> at 2000
  returns its pair and appends a row, but the row holds no hash: its \<open>tokenHash\<close> is
  null, where the SHA-256 hex digest of the returned refresh token is \<open>0d\<close>. For the
  second user, who exists too, \<open>createTokenPair\<close> at 1500 inserts nothing and returns no
  pair: the table holds a refresh token issued in that clock second, the new one is the
  same string, and the driver's error is thrown.
\<close>

theorem createTokenPair_stores_no_hash:
  "createTokenPair demo_env demo_issued_db ''u1'' None None None ''r3'' 2000 =
     (Inr \<lparr>accessToken = ''as.u1.ii'', refreshToken = ''rs.refresh.ii'', expiresIn = 900\<rparr>,
      snd (createTokenPair demo_env demo_issued_db ''u1'' None None None ''r3'' 2000)) \<and>
   refresh_tokens (snd (createTokenPair demo_env demo_issued_db ''u1'' None None None ''r3'' 2000)) =
     refresh_tokens demo_issued_db @
     [\<lparr>rt_id = ''r3'', rt_userId = ''u1'', rt_token = ''rs.refresh.ii'', rt_tokenHash = None,
       rt_deviceFingerprint = None, rt_expiresAt = 604802000, rt_isActive = True,
       rt_lastUsedAt = None, rt_createdAt = 2000, rt_ipAddress = None, rt_userAgent = None\<rparr>] \<and>
   toString_hex (sha256 demo_env (utf8 ''rs.refresh.ii'')) = ''0d'' \<and>
   find (\<lambda>u. u_id u = ''u2'') (users demo_issued_db) = Some (demo_user ''u2'' ''bob@example.com'') \<and>
   createTokenPair demo_env demo_issued_db ''u2'' None None None ''r9'' 1500 =
     (Inl (Error ''duplicate key value violates unique constraint''), demo_issued_db)"
proof -
  have g: "generateRefreshToken demo_env 2000 = ''rs.refresh.ii''"
    and g1: "generateRefreshToken demo_env 1500 = ''rs.refresh.i''"
    and a: "generateAccessToken demo_env ''u1'' e r 2000 = ''as.u1.ii''" for e r
    by (simp_all add: demo_generateRefreshToken demo_generateAccessToken numeral_2_eq_2)
  have 1: "fst (createTokenPair demo_env demo_issued_db ''u1'' None None None ''r3'' 2000) =
             Inr \<lparr>accessToken = ''as.u1.ii'', refreshToken = ''rs.refresh.ii'', expiresIn = 900\<rparr>"
    by (simp add: createTokenPair_def insert_refreshToken_def violates_unique_def Let_def
          g a demo_issued_rows demo_issued_users demo_db_def demo_user_def)
  have 2: "refresh_tokens (snd (createTokenPair demo_env demo_issued_db ''u1'' None None None ''r3'' 2000)) =
     refresh_tokens demo_issued_db @
     [\<lparr>rt_id = ''r3'', rt_userId = ''u1'', rt_token = ''rs.refresh.ii'', rt_tokenHash = None,
       rt_deviceFingerprint = None, rt_expiresAt = 604802000, rt_isActive = True,
       rt_lastUsedAt = None, rt_createdAt = 2000, rt_ipAddress = None, rt_userAgent = None\<rparr>]"
    by (simp add: createTokenPair_def insert_refreshToken_def violates_unique_def Let_def
          createAuditLog_def g demo_setDate demo_issued_rows demo_issued_users demo_db_def
          demo_user_def)
  have 3: "toString_hex (sha256 demo_env (utf8 ''rs.refresh.ii'')) = ''0d''"
    using demo_hashToken_2 by (simp add: hashToken_def)
  have 4: "find (\<lambda>u. u_id u = ''u2'') (users demo_issued_db) =
             Some (demo_user ''u2'' ''bob@example.com'')"
    by (simp add: demo_issued_users demo_db_def demo_user_def)
  have 5: "createTokenPair demo_env demo_issued_db ''u2'' None None None ''r9'' 1500 =
     (Inl (Error ''duplicate key value violates unique constraint''), demo_issued_db)"
    by (simp add: createTokenPair_def insert_refreshToken_def violates_unique_def Let_def
          g1 demo_issued_rows demo_issued_users demo_db_def demo_user_def)
  from 1 2 3 4 5 show ?thesis by (simp add: prod_eq_iff)
qed

subsection \<open>The middleware\<close>

text \<open>
  C8. For a request whose token is present and verifies, \<open>withAuth\<close> looks the user of
  the token's \<open>userId\<close> up in the database: when there is none it answers 401 \<open>User not
  found\<close>, when the user's status is not \<open>ACTIVE\<close> it answers 403 \<open>Account is not active\<close>,
  in both cases whatever the handler is, which is not called; and when the user is
  \<open>ACTIVE\<close> the answer is the handler's, called on the request with the id, email and
  role of the database row attached.
\<close>

theorem withAuth_live_user:
  assumes "extractTokenFromRequest req = Some token" and "token \<noteq> []"
    and "verifyAccessToken E token now = Inr payload"
  shows "(find (\<lambda>u. Some (u_id u) = p_userId payload) (users d) = None \<longrightarrow>
            withAuth handler E d now req =
              json_response [(''error'', JString ''User not found'')] 401) \<and>
         (\<forall>user. find (\<lambda>u. Some (u_id u) = p_userId payload) (users d) = Some user \<longrightarrow>
            (u_status user \<noteq> ''ACTIVE'' \<longrightarrow>
               withAuth handler E d now req =
                 json_response [(''error'', JString ''Account is not active'')] 403) \<and>
            (u_status user = ''ACTIVE'' \<longrightarrow>
               withAuth handler E d now req =
                 (case handler (req\<lparr>req_user := Some \<lparr>i_id = u_id user, i_email = u_email user,
                                                        i_role = u_role user\<rparr>\<rparr>) of
                    Inr res \<Rightarrow> res
                  | Inl e \<Rightarrow> withAuth_catch e)))"
  using assms by (simp add: withAuth_def)

lemma demo_extract: "extractTokenFromRequest demo_request = Some ''as.u1.i''"
  by (simp add: extractTokenFromRequest_def demo_request_def startsWith_def)

lemma demo_verifyAccessToken:
  "verifyAccessToken demo_env ''as.u1.i'' 2000 = Inr demo_access_payload"
  by (simp add: verifyAccessToken_def jwt_verify_def Let_def demo_decode_def
        demo_access_jws_def demo_access_payload_def empty_payload_def demo_env_def)

theorem withAuth_live_user_witness:
  "extractTokenFromRequest demo_request = Some ''as.u1.i'' \<and> ''as.u1.i'' \<noteq> [] \<and>
   verifyAccessToken demo_env ''as.u1.i'' 2000 = Inr demo_access_payload \<and>
   find (\<lambda>u. Some (u_id u) = p_userId demo_access_payload) (users demo_db) =
     Some (demo_user ''u1'' ''alice@example.com'') \<and>
   u_status (demo_user ''u1'' ''alice@example.com'') = ''ACTIVE'' \<and>
   withAuth (\<lambda>r. Inr (json_response [(''id'', jopt (map_option i_id (req_user r)))] 200))
     demo_env demo_db 2000 demo_request = json_response [(''id'', JString ''u1'')] 200 \<and>
   find (\<lambda>u. Some (u_id u) = p_userId demo_access_payload) (users (demo_db\<lparr>users := []\<rparr>)) = None \<and>
   withAuth (\<lambda>r. Inr (json_response [(''id'', jopt (map_option i_id (req_user r)))] 200))
     demo_env (demo_db\<lparr>users := []\<rparr>) 2000 demo_request =
     json_response [(''error'', JString ''User not found'')] 401 \<and>
   find (\<lambda>u. Some (u_id u) = p_userId demo_access_payload)
     (users (demo_db\<lparr>users := [(demo_user ''u1'' ''alice@example.com'')\<lparr>u_status := ''SUSPENDED''\<rparr>]\<rparr>)) =
     Some ((demo_user ''u1'' ''alice@example.com'')\<lparr>u_status := ''SUSPENDED''\<rparr>) \<and>
   withAuth (\<lambda>r. Inr (json_response [(''id'', jopt (map_option i_id (req_user r)))] 200))
     demo_env (demo_db\<lparr>users := [(demo_user ''u1'' ''alice@example.com'')\<lparr>u_status := ''SUSPENDED''\<rparr>]\<rparr>)
     2000 demo_request =
     json_response [(''error'', JString ''Account is not active'')] 403"
proof -
  let ?h = "\<lambda>r. Inr (json_response [(''id'', jopt (map_option i_id (req_user r)))] 200)"
  let ?s = "(demo_user ''u1'' ''alice@example.com'')\<lparr>u_status := ''SUSPENDED''\<rparr>"
  have t: "''as.u1.i'' \<noteq> []" by simp
  have f: "find (\<lambda>u. Some (u_id u) = p_userId demo_access_payload) (users demo_db) =
             Some (demo_user ''u1'' ''alice@example.com'')"
    by (simp add: demo_access_payload_def empty_payload_def demo_db_def demo_user_def)
  have a: "u_status (demo_user ''u1'' ''alice@example.com'') = ''ACTIVE''"
    by (simp add: demo_user_def)
  have g: "find (\<lambda>u. Some (u_id u) = p_userId demo_access_payload)
             (users (demo_db\<lparr>users := []\<rparr>)) = None"
    by simp
  have i: "find (\<lambda>u. Some (u_id u) = p_userId demo_access_payload)
             (users (demo_db\<lparr>users := [?s]\<rparr>)) = Some ?s"
    by (simp add: demo_access_payload_def empty_payload_def demo_user_def)
  from withAuth_live_user [OF demo_extract t demo_verifyAccessToken, of demo_db ?h] f a
  have 1: "withAuth ?h demo_env demo_db 2000 demo_request =
             json_response [(''id'', JString ''u1'')] 200"
    by (simp add: demo_user_def jopt_def)
  from withAuth_live_user [OF demo_extract t demo_verifyAccessToken, of "demo_db\<lparr>users := []\<rparr>" ?h] g
  have 2: "withAuth ?h demo_env (demo_db\<lparr>users := []\<rparr>) 2000 demo_request =
             json_response [(''error'', JString ''User not found'')] 401"
    by simp
  from withAuth_live_user [OF demo_extract t demo_verifyAccessToken,
         of "demo_db\<lparr>users := [?s]\<rparr>" ?h] i
  have 3: "withAuth ?h demo_env (demo_db\<lparr>users := [?s]\<rparr>) 2000 demo_request =
             json_response [(''error'', JString ''Account is not active'')] 403"
    by simp
  from demo_extract t demo_verifyAccessToken f a 1 g 2 i 3 show ?thesis by blast
qed

subsection \<open>Revocation\<close>

text \<open>
  C10. \<open>revokeAllRefreshTokens d u\<close> leaves the users and the audit log as they are and
  keeps every refresh-token row in its place; a row of another user is unchanged, and
  any row differs from what it was in its \<open>isActive\<close> field at most: token, hash, expiry,
  last use, device fingerprint, creation time, address and agent stay.
\<close>

theorem revokeAllRefreshTokens_frame:
  "users (revokeAllRefreshTokens d u) = users d \<and>
   audit_logs (revokeAllRefreshTokens d u) = audit_logs d \<and>
   length (refresh_tokens (revokeAllRefreshTokens d u)) = length (refresh_tokens d) \<and>
   (\<forall>i < length (refresh_tokens d).
      (rt_userId (refresh_tokens d ! i) \<noteq> u \<longrightarrow>
         refresh_tokens (revokeAllRefreshTokens d u) ! i = refresh_tokens d ! i) \<and>
      refresh_tokens (revokeAllRefreshTokens d u) ! i =
        (refresh_tokens d ! i)
          \<lparr>rt_isActive := rt_isActive (refresh_tokens (revokeAllRefreshTokens d u) ! i)\<rparr>)"
  by (simp add: revokeAllRefreshTokens_def)

theorem revokeAllRefreshTokens_frame_witness:
  "(1 :: nat) < length (refresh_tokens demo_db) \<and>
   rt_userId (refresh_tokens demo_db ! 1) \<noteq> ''u1'' \<and>
   refresh_tokens (revokeAllRefreshTokens demo_db ''u1'') ! 1 = refresh_tokens demo_db ! 1 \<and>
   rt_userId (refresh_tokens demo_db ! 0) = ''u1'' \<and>
   refresh_tokens (revokeAllRefreshTokens demo_db ''u1'') ! 0 =
     (refresh_tokens demo_db ! 0)\<lparr>rt_isActive := False\<rparr>"
  using revokeAllRefreshTokens_frame [of demo_db "''u1''"]
  by (simp add: demo_db_def demo_row_def revokeAllRefreshTokens_def)

subsection \<open>Password reset tokens\<close>

lemma filter_le_one_same:
  assumes "length (filter P xs) \<le> 1" and "x \<in> set xs" and "y \<in> set xs" and "P x" and "P y"
  shows "x = y"
  using assms
proof (induction xs)
  case Nil
  then show ?case by simp
next
  case (Cons a xs)
  show ?case
  proof (cases "P a")
    case True
    with Cons.prems(1) have "filter P xs = []" by simp
    then have "\<forall>z\<in>set xs. \<not> P z" by (simp add: filter_empty_conv)
    with Cons.prems True show ?thesis by auto
  next
    case False
    with Cons show ?thesis by auto
  qed
qed

lemma users_revokeAllRefreshTokens: "users (revokeAllRefreshTokens d u) = users d"
  by (simp add: revokeAllRefreshTokens_def)

text \<open>
  A reset token that no user holds is, once \<open>generatePasswordResetToken\<close> has stored it,
  held by at most one row of a table whose ids are unique.
\<close>

lemma filter_one_id:
  assumes "distinct (map u_id xs)"
  shows "length (filter (\<lambda>u. u_id u = i) xs) \<le> 1"
  using assms
proof (induction xs)
  case Nil
  show ?case by simp
next
  case (Cons x xs)
  show ?case
  proof (cases "u_id x = i")
    case True
    from Cons.prems have "u_id x \<notin> u_id ` set xs" by simp
    with True have "\<forall>u\<in>set xs. u_id u \<noteq> i" by blast
    then have "filter (\<lambda>u. u_id u = i) xs = []" by (simp add: filter_empty_conv)
    with True show ?thesis by simp
  next
    case False
    with Cons show ?thesis by simp
  qed
qed

lemma holders_after_request:
  assumes "\<forall>u\<in>set xs. u_passwordResetToken u \<noteq> Some T"
  shows "length (filter (\<lambda>u. u_passwordResetToken u = Some T)
           (map (\<lambda>u. if u_id u = i
                      then u\<lparr>u_passwordResetToken := Some T, u_passwordResetExpires := e,
                             u_updatedAt := now\<rparr>
                      else u) xs)) =
         length (filter (\<lambda>u. u_id u = i) xs)"
  using assms by (induction xs) simp_all

lemma generatePasswordResetToken_one_holder:
  assumes ids: "distinct (map u_id (users d))"
    and fresh: "\<forall>u\<in>set (users d). u_passwordResetToken u \<noteq> Some T"
    and gen: "generatePasswordResetToken d email T now = (res, d')"
  shows "length (filter (\<lambda>u. u_passwordResetToken u = Some T) (users d')) \<le> 1"
proof (cases "find (\<lambda>u. u_email u = email) (users d)")
  case None
  with gen have "d' = d" by (simp add: generatePasswordResetToken_def)
  moreover from fresh have "filter (\<lambda>u. u_passwordResetToken u = Some T) (users d) = []"
    by (simp add: filter_empty_conv)
  ultimately show ?thesis by simp
next
  case (Some user)
  with gen have us: "users d' =
      map (\<lambda>u. if u_id u = u_id user
                then u\<lparr>u_passwordResetToken := Some T,
                       u_passwordResetExpires := Some (now + oneHour), u_updatedAt := now\<rparr>
                else u) (users d)"
    by (auto simp: generatePasswordResetToken_def Let_def)
  show ?thesis
    unfolding us holders_after_request [OF fresh]
    by (rule filter_one_id [OF ids])
qed

text \<open>
  C6. Let the reset token \<open>T\<close> be held by at most one user, as a token drawn from a random
  uuid is. After a call of \<open>resetPassword\<close> with \<open>T\<close> that succeeded, a call with \<open>T\<close> fails
  with \<open>Invalid or expired reset token\<close> and changes nothing, whatever the new password,
  the other arguments and the time of the call are: also before the token's expiry.
\<close>

theorem resetPassword_single_use:
  assumes one: "length (filter (\<lambda>u. u_passwordResetToken u = Some T) (users d)) \<le> 1"
    and ok: "resetPassword E d saltBytes T newPass ip ua now = (Inr (), d')"
  shows "resetPassword E d' saltBytes' T anotherPass ip' ua' now' =
           (Inl (Error ''Invalid or expired reset token''), d')"
proof -
  from ok obtain user where f: "find (\<lambda>u. u_passwordResetToken u = Some T) (users d) = Some user"
    by (auto simp: resetPassword_def split: option.splits)
  then have um: "user \<in> set (users d)" and ut: "u_passwordResetToken user = Some T"
    by (auto dest: find_SomeD)
  from ok f have us: "users d' =
      map (\<lambda>u. if u_id u = u_id user
                then u\<lparr>u_passwordHash := (case hashPassword E saltBytes newPass of Inr h \<Rightarrow> h),
                       u_passwordResetToken := None, u_passwordResetExpires := None,
                       u_failedLoginAttempts := 0, u_lockedUntil := None, u_updatedAt := now\<rparr>
                else u) (users d)"
    by (auto simp: resetPassword_def users_revokeAllRefreshTokens Let_def
             split: option.splits if_splits sum.splits)
  have "u_passwordResetToken x \<noteq> Some T" if x: "x \<in> set (users d')" for x
  proof -
    from x us obtain y where y: "y \<in> set (users d)" and xy: "x = (if u_id y = u_id user
                then y\<lparr>u_passwordHash := (case hashPassword E saltBytes newPass of Inr h \<Rightarrow> h),
                       u_passwordResetToken := None, u_passwordResetExpires := None,
                       u_failedLoginAttempts := 0, u_lockedUntil := None, u_updatedAt := now\<rparr>
                else y)"
      by auto
    show ?thesis
    proof (cases "u_id y = u_id user")
      case True
      with xy show ?thesis by simp
    next
      case False
      then have "y \<noteq> user" by auto
      with filter_le_one_same [OF one y um _ ut] have "u_passwordResetToken y \<noteq> Some T" by blast
      with xy False show ?thesis by simp
    qed
  qed
  then have "find (\<lambda>u. u_passwordResetToken u = Some T) (users d') = None"
    by (simp add: find_None_iff)
  then show ?thesis by (simp add: resetPassword_def)
qed

lemma demo_reset_users:
  "users demo_reset_db =
     [(demo_user ''u1'' ''alice@example.com'')
        \<lparr>u_passwordResetToken := Some ''dG9rZW4='', u_passwordResetExpires := Some 3601000,
         u_updatedAt := 1000\<rparr>,
      demo_user ''u2'' ''bob@example.com'']"
  by (simp add: demo_reset_db_def generatePasswordResetToken_def demo_db_def demo_user_def
        oneHour_def Let_def)

lemma demo_reset_first:
  "fst (resetPassword demo_env demo_reset_db [4, 5, 6] ''dG9rZW4='' ''N3wPassw0rd!'' None None 2000)
     = Inr ()"
proof -
  have h: "hashPassword demo_env [4, 5, 6] ''N3wPassw0rd!'' =
             Inr (toString_hex [4, 5, 6] @ '':'' @
                  toString_hex (pbkdf2_hmac (sha512 demo_env) (utf8 ''N3wPassw0rd!'')
                                  (utf8 (toString_hex [4, 5, 6])) 100000 64) @ '':100000'')"
    by (rule hashPassword_digest) simp_all
  show ?thesis
    by (simp add: resetPassword_def demo_reset_users h demo_user_def Let_def)
qed

theorem resetPassword_single_use_witness:
  "length (filter (\<lambda>u. u_passwordResetToken u = Some ''dG9rZW4='') (users demo_reset_db)) \<le> 1 \<and>
   fst (resetPassword demo_env demo_reset_db [4, 5, 6] ''dG9rZW4='' ''N3wPassw0rd!'' None None 2000)
     = Inr () \<and>
   fst (resetPassword demo_env
          (snd (resetPassword demo_env demo_reset_db [4, 5, 6] ''dG9rZW4='' ''N3wPassw0rd!''
                  None None 2000))
          [7, 8, 9] ''dG9rZW4='' ''An0therPass!'' None None 3000) =
     Inl (Error ''Invalid or expired reset token'')"
proof -
  let ?first = "resetPassword demo_env demo_reset_db [4, 5, 6] ''dG9rZW4='' ''N3wPassw0rd!''
                  None None 2000"
  have one: "length (filter (\<lambda>u. u_passwordResetToken u = Some ''dG9rZW4='')
                       (users demo_reset_db)) \<le> 1"
    by (simp add: demo_reset_users demo_user_def)
  have ok: "?first = (Inr (), snd ?first)"
    using demo_reset_first by (cases ?first) simp
  from resetPassword_single_use [OF one ok, of "[7, 8, 9]" "''An0therPass!''" None None 3000]
  have "fst (resetPassword demo_env (snd ?first) [7, 8, 9] ''dG9rZW4='' ''An0therPass!''
               None None 3000) = Inl (Error ''Invalid or expired reset token'')"
    by simp
  with one demo_reset_first show ?thesis by simp
qed

subsection \<open>Lockout\<close>

lemma demo_locked_users:
  "users demo_locked_db =
     [(demo_user ''u1'' ''alice@example.com'')
        \<lparr>u_failedLoginAttempts := 5, u_lockedUntil := Some 1805000\<rparr>,
      demo_user ''u2'' ''bob@example.com'']"
  by (simp add: demo_locked_db_def recordFailedLogin_def demo_db_def demo_user_def
        thirtyMinutes_def Let_def)

lemma demo_password_ok:
  "verifyPassword demo_env ''Passw0rd!'' (u_passwordHash (demo_user ''u1'' ''alice@example.com''))
     = Inr True"
proof -
  have h: "hashPassword demo_env [1, 2, 3] ''Passw0rd!'' =
             Inr (toString_hex [1, 2, 3] @ '':'' @
                  toString_hex (pbkdf2_hmac (sha512 demo_env) (utf8 ''Passw0rd!'')
                                  (utf8 (toString_hex [1, 2, 3])) 100000 64) @ '':100000'')"
    by (rule hashPassword_digest) simp_all
  have v: "verifyPassword demo_env ''Passw0rd!''
             (toString_hex [1, 2, 3] @ '':'' @
              toString_hex (pbkdf2_hmac (sha512 demo_env) (utf8 ''Passw0rd!'')
                              (utf8 (toString_hex [1, 2, 3])) 100000 64) @ '':100000'') = Inr True"
    by (subst verifyPassword_digest) simp_all
  show ?thesis
    by (simp only: demo_user_def user_row.simps h sum.case v)
qed

text \<open>
  C3 does not hold of the code in its second half. After five recorded failed logins of
  a user at times up to 5000, the lock runs until \<open>5000 + thirtyMinutes\<close>; one millisecond
  after that, \<open>isUserLocked\<close> is still true, because the count of failed attempts is still
  five, and a login with the correct password is answered 423 \<open>ACCOUNT_LOCKED\<close>.
\<close>

theorem login_locked_after_window:
  "u_failedLoginAttempts (hd (users demo_locked_db)) = 5 \<and>
   u_lockedUntil (hd (users demo_locked_db)) = Some (5000 + thirtyMinutes) \<and>
   verifyPassword demo_env ''Passw0rd!'' (u_passwordHash (hd (users demo_locked_db))) = Inr True \<and>
   isUserLocked demo_locked_db ''u1'' (5000 + thirtyMinutes + 1) \<and>
   login demo_env demo_locked_db ''alice@example.com'' ''Passw0rd!'' False demo_request ''r9''
     (5000 + thirtyMinutes + 1) =
     (json_response
        [(''error'', JString ''Account temporarily locked due to too many failed login attempts. Please try again later.''),
         (''code'', JString ''ACCOUNT_LOCKED'')] 423,
      demo_locked_db)"
proof -
  have p: "verifyPassword demo_env ''Passw0rd!'' (u_passwordHash (hd (users demo_locked_db)))
             = Inr True"
    using demo_password_ok by (simp add: demo_locked_users demo_user_def)
  have l: "isUserLocked demo_locked_db ''u1'' (5000 + thirtyMinutes + 1)"
    by (simp add: isUserLocked_def demo_locked_users demo_user_def thirtyMinutes_def)
  have f: "find (\<lambda>u. u_email u = toLowerCase ''alice@example.com'') (users demo_locked_db) =
             Some (hd (users demo_locked_db))"
    by (simp add: demo_locked_users demo_user_def toLowerCase_def toLowerCase_char_def)
  have i: "u_id (hd (users demo_locked_db)) = ''u1''"
    by (simp add: demo_locked_users demo_user_def)
  have g: "login demo_env demo_locked_db ''alice@example.com'' ''Passw0rd!'' False demo_request
             ''r9'' (5000 + thirtyMinutes + 1) =
           (json_response
              [(''error'', JString ''Account temporarily locked due to too many failed login attempts. Please try again later.''),
               (''code'', JString ''ACCOUNT_LOCKED'')] 423,
            demo_locked_db)"
    by (simp only: login_def f option.case i l if_True)
  have a: "u_failedLoginAttempts (hd (users demo_locked_db)) = 5"
    and b: "u_lockedUntil (hd (users demo_locked_db)) = Some (5000 + thirtyMinutes)"
    by (simp_all add: demo_locked_users thirtyMinutes_def)
  from a b p l g show ?thesis by blast
qed

subsection \<open>Overlapping refresh calls\<close>

text \<open>
  The statements that follow the \<open>select\<close>, run twice on the one row a \<open>select\<close> would
  have given two overlapping calls: the second run finds the row deactivated by the
  first and issues its pair all the same, so both pairs are active in the table.
\<close>

lemma refreshTokens_rotate_twice:
  "fst (refreshTokens_rotate demo_env demo_issued_db (hd (refresh_tokens demo_issued_db))
          None None None ''r2'' 2999) =
     Inr \<lparr>accessToken = ''as.u1.ii'', refreshToken = ''rs.refresh.ii'', expiresIn = 900\<rparr> \<and>
   fst (refreshTokens_rotate demo_env
          (snd (refreshTokens_rotate demo_env demo_issued_db (hd (refresh_tokens demo_issued_db))
                  None None None ''r2'' 2999))
          (hd (refresh_tokens demo_issued_db)) None None None ''r3'' 3000) =
     Inr \<lparr>accessToken = ''as.u1.iii'', refreshToken = ''rs.refresh.iii'', expiresIn = 900\<rparr> \<and>
   map (\<lambda>r. (rt_token r, rt_isActive r))
     (refresh_tokens
        (snd (refreshTokens_rotate demo_env
          (snd (refreshTokens_rotate demo_env demo_issued_db (hd (refresh_tokens demo_issued_db))
                  None None None ''r2'' 2999))
          (hd (refresh_tokens demo_issued_db)) None None None ''r3'' 3000))) =
     [(''rs.refresh.i'', False), (''rs.refresh.ii'', True), (''rs.refresh.iii'', True)]"
proof -
  have g2: "generateRefreshToken demo_env 2999 = ''rs.refresh.ii''"
    and g3: "generateRefreshToken demo_env 3000 = ''rs.refresh.iii''"
    and a2: "generateAccessToken demo_env ''u1'' e r 2999 = ''as.u1.ii''"
    and a3: "generateAccessToken demo_env ''u1'' e r 3000 = ''as.u1.iii''" for e r
    by (simp_all add: demo_generateRefreshToken demo_generateAccessToken numeral_2_eq_2
          numeral_3_eq_3)
  show ?thesis
    by (simp add: refreshTokens_rotate_def createTokenPair_def createAuditLog_def
          insert_refreshToken_def violates_unique_def g2 g3 a2 a3 demo_setDate
          rotate_by_id_def Let_def demo_issued_db_eq demo_db_def demo_user_def)
qed

text \<open>
  C9 does not hold of the code. Two calls with the refresh token issued at 1000, both
  running their \<open>select\<close> at 2990 before either runs its next statement: neither
  succeeds and neither fails with \<open>Refresh token not found or inactive\<close>; both throw the
  driver's error at the \<open>select\<close>, and the database is as it was. The row's \<open>isActive\<close>
  guards nothing, because no call comes as far as reading it.
\<close>

theorem refreshTokens_overlapped_both_throw:
  "refreshTokens_overlapped demo_env demo_issued_db ''rs.refresh.i''
     2990 (demo_call ''r2'' 2999) 2990 (demo_call ''r3'' 3000) =
     (Inl query_error, Inl query_error, demo_issued_db) \<and>
   map (\<lambda>r. (rt_token r, rt_isActive r)) (refresh_tokens demo_issued_db) =
     [(''rs.refresh.i'', True)] \<and>
   query_error \<noteq> Error ''Refresh token not found or inactive''"
  by (simp add: refreshTokens_overlapped_def refreshTokens_select_def
        select_active_by_tokenHash_def demo_verifyRefreshToken demo_issued_rows query_error_def)

subsection \<open>Further properties of the lockout and of revocation\<close>

lemma find_map_same_key:
  assumes "\<And>x. P (f x) = P x"
  shows "find P (map f xs) = map_option f (find P xs)"
  by (induction xs) (simp_all add: assms)

lemma isUserLocked_counted:
  assumes "find (\<lambda>u. u_id u = userId) (users d) = Some user"
    and "5 \<le> u_failedLoginAttempts user"
  shows "isUserLocked d userId now"
  using assms by (simp add: isUserLocked_def)

text \<open>
  A user whose count of failed logins is five or more is locked at every time,
  whatever \<open>lockedUntil\<close> holds.
\<close>

theorem isUserLocked_while_counted:
  assumes "find (\<lambda>u. u_id u = userId) (users d) = Some user"
    and "5 \<le> u_failedLoginAttempts user"
  shows "isUserLocked d userId now"
  using assms by (rule isUserLocked_counted)

theorem isUserLocked_while_counted_witness:
  "find (\<lambda>u. u_id u = ''u1'') (users demo_locked_db) = Some (hd (users demo_locked_db)) \<and>
   5 \<le> u_failedLoginAttempts (hd (users demo_locked_db)) \<and>
   isUserLocked demo_locked_db ''u1'' 999999999"
proof -
  have f: "find (\<lambda>u. u_id u = ''u1'') (users demo_locked_db) = Some (hd (users demo_locked_db))"
    by (simp add: demo_locked_users demo_user_def)
  have c: "5 \<le> u_failedLoginAttempts (hd (users demo_locked_db))"
    by (simp add: demo_locked_users)
  from isUserLocked_while_counted [OF f c, of 999999999] f c show ?thesis by simp
qed

text \<open>
  The failed login that brings a user's count to five or more locks the user: after
  \<open>recordFailedLogin\<close> on a user whose count was at least four, \<open>isUserLocked\<close> is true.
\<close>

theorem recordFailedLogin_fifth_locks:
  assumes f: "find (\<lambda>u. u_id u = userId) (users d) = Some user"
    and c: "4 \<le> u_failedLoginAttempts user"
  shows "isUserLocked (recordFailedLogin d userId ip ua now) userId now'"
proof -
  let ?g = "\<lambda>u. if u_id u = userId
              then u\<lparr>u_failedLoginAttempts := u_failedLoginAttempts user + 1,
                     u_lockedUntil := Some (now + thirtyMinutes)\<rparr>
              else u"
  from c have five: "5 \<le> u_failedLoginAttempts user + 1" by simp
  have us: "users (recordFailedLogin d userId ip ua now) = map ?g (users d)"
    using f five by (simp add: recordFailedLogin_def Let_def)
  have "find (\<lambda>u. u_id u = userId) (map ?g (users d)) =
          map_option ?g (find (\<lambda>u. u_id u = userId) (users d))"
    by (rule find_map_same_key) simp
  with f have f': "find (\<lambda>u. u_id u = userId) (users (recordFailedLogin d userId ip ua now)) =
          Some (?g user)"
    by (simp add: us)
  from f have "u_id user = userId" by (auto dest: find_SomeD)
  with five have g: "5 \<le> u_failedLoginAttempts (?g user)" by simp
  show ?thesis by (rule isUserLocked_counted [OF f' g])
qed

theorem recordFailedLogin_fifth_locks_witness:
  "find (\<lambda>u. u_id u = ''u1'') (users demo_locked_db) = Some (hd (users demo_locked_db)) \<and>
   4 \<le> u_failedLoginAttempts (hd (users demo_locked_db)) \<and>
   isUserLocked (recordFailedLogin demo_locked_db ''u1'' None None 6000) ''u1'' 999999999"
proof -
  have f: "find (\<lambda>u. u_id u = ''u1'') (users demo_locked_db) = Some (hd (users demo_locked_db))"
    by (simp add: demo_locked_users demo_user_def)
  have c: "4 \<le> u_failedLoginAttempts (hd (users demo_locked_db))"
    by (simp add: demo_locked_users)
  from recordFailedLogin_fifth_locks [OF f c, of None None 6000 999999999] f c
  show ?thesis by simp
qed

end
